theory Spec2Isabelle
  imports Complex_Main "HOL-Library.Word" "HOL-Library.AList"
begin

unbundle bit_operations_syntax

section \<open>Python values\<close>

text \<open>
  The slice works on \<open>Dict[str, Any]\<close> bags.  A value is one of the JSON-shaped Python
  values; a dict is an association list in insertion order (\<open>map_of\<close> is \<open>dict.get\<close>,
  \<open>AList.update\<close> is item assignment: it overwrites in place or appends at the end).
  A float is the real number it denotes.
\<close>

datatype pyval =
    PNone
  | PBool bool
  | PInt int
  | PFloat real
  | PStr string
  | PList "pyval list"
  | PDict "(string \<times> pyval) list"

type_synonym pydict = "(string \<times> pyval) list"

text \<open>Python truthiness, as used by \<open>if result.get('success')\<close> and \<open>if w.get("processed")\<close>.\<close>

fun truthy :: "pyval \<Rightarrow> bool" where
  "truthy PNone = False"
| "truthy (PBool b) = b"
| "truthy (PInt i) = (i \<noteq> 0)"
| "truthy (PFloat r) = (r \<noteq> 0)"
| "truthy (PStr s) = (s \<noteq> [])"
| "truthy (PList xs) = (xs \<noteq> [])"
| "truthy (PDict d) = (d \<noteq> [])"

text \<open>\<open>type(v).__name__\<close>, which Python puts into the message of an AttributeError.\<close>

fun type_name :: "pyval \<Rightarrow> string" where
  "type_name PNone = ''NoneType''"
| "type_name (PBool b) = ''bool''"
| "type_name (PInt i) = ''int''"
| "type_name (PFloat r) = ''float''"
| "type_name (PStr s) = ''str''"
| "type_name (PList xs) = ''list''"
| "type_name (PDict d) = ''dict''"

text \<open>\<open>d.get(k, default)\<close> and \<open>d.update({k1: v1, ...})\<close>.\<close>

definition get_or :: "pydict \<Rightarrow> string \<Rightarrow> pyval \<Rightarrow> pyval" where
  "get_or d k dflt = (case map_of d k of None \<Rightarrow> dflt | Some v \<Rightarrow> v)"

definition dict_update :: "pydict \<Rightarrow> pydict \<Rightarrow> pydict" where
  "dict_update d kvs = foldl (\<lambda>acc (k, v). AList.update k v acc) d kvs"

datatype py_exception =
    HTTPException nat string
  | StopIteration
  | AttributeError string
  | KeyError string
  | Exception string

text \<open>\<open>str(e)\<close> for the exceptions whose message the slice reads.\<close>

fun str_exc :: "py_exception \<Rightarrow> string" where
  "str_exc (HTTPException c d) = d"
| "str_exc StopIteration = []"
| "str_exc (AttributeError m) = m"
| "str_exc (KeyError k) = [CHR 0x27] @ k @ [CHR 0x27]"
| "str_exc (Exception m) = m"

section \<open>Clock readings\<close>

text \<open>
  \<open>datetime.now()\<close> is an input of the environment: every function that reads the clock
  takes the reading as an argument.  A reading is the naive local civil time.
\<close>

record datetime =
  year :: nat
  month :: nat
  day :: nat
  hour :: nat
  minute :: nat
  second :: nat
  microsecond :: nat

fun dec :: "nat \<Rightarrow> nat \<Rightarrow> string" where
  "dec 0 n = []"
| "dec (Suc w) n = dec w (n div 10) @ [char_of (48 + n mod 10)]"

text \<open>\<open>strftime("%Y%m%d_%H%M%S_%f")\<close>: zero-padded fields of width 4, 2, 2, 2, 2, 2, 6.\<close>

definition strftime_id :: "datetime \<Rightarrow> string" where
  "strftime_id t =
     dec 4 (year t) @ dec 2 (month t) @ dec 2 (day t) @ ''_'' @
     dec 2 (hour t) @ dec 2 (minute t) @ dec 2 (second t) @ ''_'' @ dec 6 (microsecond t)"

text \<open>\<open>isoformat()\<close>: the fraction is left out when the microsecond field is 0.\<close>

definition isoformat :: "datetime \<Rightarrow> string" where
  "isoformat t =
     dec 4 (year t) @ ''-'' @ dec 2 (month t) @ ''-'' @ dec 2 (day t) @ ''T'' @
     dec 2 (hour t) @ '':'' @ dec 2 (minute t) @ '':'' @ dec 2 (second t) @
     (if microsecond t = 0 then [] else ''.'' @ dec 6 (microsecond t))"

section \<open>Floating-point numbers\<close>

text \<open>
  Python's \<open>float\<close> is the IEEE 754 binary64 format.  A float is modelled by the real
  number it denotes, and every float operation of the source by the exact operation
  followed by \<open>round_double\<close>, which rounds to the nearest number with a 53-bit
  significand, ties to the even significand.  \<open>double_exponent\<close> looks for the binary
  exponent from 1023 downwards and stops at -1022, where the subnormal numbers begin.
  Infinities and NaN are not modelled: a result beyond the largest finite float is rounded
  like any other.
\<close>

definition round_half_even :: "real \<Rightarrow> int" where
  "round_half_even y =
     (let f = \<lfloor>y\<rfloor>; d = y - of_int f
      in if d < 1 / 2 then f else if 1 / 2 < d then f + 1 else if even f then f else f + 1)"

fun exponent_search :: "nat \<Rightarrow> real \<Rightarrow> int" where
  "exponent_search 0 a = - 1022"
| "exponent_search (Suc n) a =
     (if 2 powi (int (Suc n) - 1022) \<le> a then int (Suc n) - 1022 else exponent_search n a)"

definition double_exponent :: "real \<Rightarrow> int" where
  "double_exponent x = exponent_search 2045 \<bar>x\<bar>"

definition round_double :: "real \<Rightarrow> real" where
  "round_double x =
     (let u = 2 powi (double_exponent x - 52)
      in of_int (round_half_even (x / u)) * u)"

section \<open>SHA-256 (hashlib.sha256(...).hexdigest())\<close>

text \<open>
  \<open>rotate_api_key\<close> calls the standard library's SHA-256; it is defined here after
  FIPS 180-4 on byte lists, with \<open>str.encode()\<close> (UTF-8) in front.  The round constants
  and the initial hash value are written in decimal.
\<close>

type_synonym u32 = "32 word"

definition rotr :: "nat \<Rightarrow> u32 \<Rightarrow> u32" where
  "rotr n x = word_rotr n x"

definition Ch :: "u32 \<Rightarrow> u32 \<Rightarrow> u32 \<Rightarrow> u32" where
  "Ch x y z = (x AND y) XOR (NOT x AND z)"

definition Maj :: "u32 \<Rightarrow> u32 \<Rightarrow> u32 \<Rightarrow> u32" where
  "Maj x y z = (x AND y) XOR (x AND z) XOR (y AND z)"

definition bsig0 :: "u32 \<Rightarrow> u32" where
  "bsig0 x = rotr 2 x XOR rotr 13 x XOR rotr 22 x"

definition bsig1 :: "u32 \<Rightarrow> u32" where
  "bsig1 x = rotr 6 x XOR rotr 11 x XOR rotr 25 x"

definition ssig0 :: "u32 \<Rightarrow> u32" where
  "ssig0 x = rotr 7 x XOR rotr 18 x XOR drop_bit 3 x"

definition ssig1 :: "u32 \<Rightarrow> u32" where
  "ssig1 x = rotr 17 x XOR rotr 19 x XOR drop_bit 10 x"

definition K256 :: "u32 list" where
  "K256 =
    [1116352408, 1899447441, 3049323471, 3921009573, 961987163, 1508970993, 2453635748, 2870763221,
     3624381080, 310598401, 607225278, 1426881987, 1925078388, 2162078206, 2614888103, 3248222580,
     3835390401, 4022224774, 264347078, 604807628, 770255983, 1249150122, 1555081692, 1996064986,
     2554220882, 2821834349, 2952996808, 3210313671, 3336571891, 3584528711, 113926993, 338241895,
     666307205, 773529912, 1294757372, 1396182291, 1695183700, 1986661051, 2177026350, 2456956037,
     2730485921, 2820302411, 3259730800, 3345764771, 3516065817, 3600352804, 4094571909, 275423344,
     430227734, 506948616, 659060556, 883997877, 958139571, 1322822218, 1537002063, 1747873779,
     1955562222, 2024104815, 2227730452, 2361852424, 2428436474, 2756734187, 3204031479, 3329325298]"

type_synonym sha_state = "u32 \<times> u32 \<times> u32 \<times> u32 \<times> u32 \<times> u32 \<times> u32 \<times> u32"

definition sha256_init :: sha_state where
  "sha256_init =
    (1779033703, 3144134277, 1013904242, 2773480762, 1359893119, 2600822924, 528734635, 1541459225)"

definition sha256_pad :: "nat list \<Rightarrow> nat list" where
  "sha256_pad m =
     (let l = length m; k = (119 - l mod 64) mod 64
      in m @ [128] @ replicate k 0 @
         map (\<lambda>i. unat (drop_bit (8 * (7 - i)) (of_nat (8 * l) :: 64 word) AND 255)) [0..<8])"

definition be32 :: "nat list \<Rightarrow> u32" where
  "be32 bs = foldl (\<lambda>acc b. push_bit 8 acc OR of_nat b) 0 bs"

definition block_words :: "nat list \<Rightarrow> u32 list" where
  "block_words blk = map (\<lambda>i. be32 (take 4 (drop (4 * i) blk))) [0..<16]"

fun schedule :: "nat \<Rightarrow> u32 list \<Rightarrow> u32 list" where
  "schedule 0 w = w"
| "schedule (Suc n) w =
     schedule n (w @ [ssig1 (w ! (length w - 2)) + w ! (length w - 7)
                      + ssig0 (w ! (length w - 15)) + w ! (length w - 16)])"

fun sha256_round :: "sha_state \<Rightarrow> u32 \<times> u32 \<Rightarrow> sha_state" where
  "sha256_round (a, b, c, d, e, f, g, h) (k, w) =
     (let t1 = h + bsig1 e + Ch e f g + k + w;
          t2 = bsig0 a + Maj a b c
      in (t1 + t2, a, b, c, d + t1, e, f, g))"

fun sha256_add :: "sha_state \<Rightarrow> sha_state \<Rightarrow> sha_state" where
  "sha256_add (a, b, c, d, e, f, g, h) (a', b', c', d', e', f', g', h') =
     (a + a', b + b', c + c', d + d', e + e', f + f', g + g', h + h')"

definition sha256_block :: "sha_state \<Rightarrow> nat list \<Rightarrow> sha_state" where
  "sha256_block st blk =
     sha256_add st (foldl sha256_round st (zip K256 (schedule 48 (block_words blk))))"

definition sha256 :: "nat list \<Rightarrow> sha_state" where
  "sha256 m =
     (let p = sha256_pad m
      in foldl sha256_block sha256_init
           (map (\<lambda>i. take 64 (drop (64 * i) p)) [0..<length p div 64]))"

definition hex_digit :: "nat \<Rightarrow> char" where
  "hex_digit n = (if n < 10 then char_of (48 + n) else char_of (87 + n))"

definition hex_word :: "u32 \<Rightarrow> string" where
  "hex_word w = map (\<lambda>i. hex_digit (unat (drop_bit (4 * (7 - i)) w AND 15))) [0..<8]"

fun hexdigest :: "sha_state \<Rightarrow> string" where
  "hexdigest (a, b, c, d, e, f, g, h) =
     hex_word a @ hex_word b @ hex_word c @ hex_word d @
     hex_word e @ hex_word f @ hex_word g @ hex_word h"

definition encode :: "string \<Rightarrow> nat list" where
  "encode s = concat (map (\<lambda>c. let n = of_char c :: nat
                                in if n < 128 then [n] else [192 + n div 64, 128 + n mod 64]) s)"

definition sha256_hexdigest :: "string \<Rightarrow> string" where
  "sha256_hexdigest s = hexdigest (sha256 (encode s))"

section \<open>SecurityManager (src/web/n8n\_integration/security\_manager.py)\<close>

text \<open>
  \<open>api_keys\<close> is the dict name \<open>\<mapsto>\<close> key in insertion order; \<open>request_counts\<close> maps an
  API key to its list of request times (\<open>time.time()\<close>, seconds, floats).  The age
  \<open>current_time - req_time\<close> is a float subtraction; its result is compared with the
  integer window exactly.
\<close>

record security_manager =
  api_keys :: "(string \<times> string) list"
  rate_limit_window :: int
  rate_limit_requests :: int
  request_counts :: "string \<Rightarrow> real list option"
  enable_ip_whitelist :: bool
  allowed_ips :: "string list"

definition SecurityManager_init :: security_manager where
  "SecurityManager_init =
     \<lparr> api_keys = [(''n8n_main'', ''sk_codealchemy_n8n_2025''),
                   (''n8n_monitoring'', ''sk_codealchemy_monitor_2025''),
                   (''n8n_automation'', ''sk_codealchemy_auto_2025'')],
       rate_limit_window = 60,
       rate_limit_requests = 100,
       request_counts = Map.empty,
       enable_ip_whitelist = True,
       allowed_ips = [''127.0.0.1'', ''localhost'', ''::1''] \<rparr>"

definition validate_api_key :: "string \<Rightarrow> security_manager \<Rightarrow> py_exception + string" where
  "validate_api_key api_key sm =
     (if api_key \<notin> set (map snd (api_keys sm))
      then Inl (HTTPException 401 ''Invalid API key'')
      else (case find (\<lambda>(name, key). key = api_key) (api_keys sm) of
              Some (name, key) \<Rightarrow> Inr name
            | None \<Rightarrow> Inl StopIteration))"

definition window_of :: "security_manager \<Rightarrow> string \<Rightarrow> real list" where
  "window_of sm api_key = (case request_counts sm api_key of None \<Rightarrow> [] | Some w \<Rightarrow> w)"

definition check_rate_limit ::
  "real \<Rightarrow> string \<Rightarrow> security_manager \<Rightarrow> (py_exception + unit) \<times> security_manager" where
  "check_rate_limit current_time api_key sm =
     (let sm0 = (if request_counts sm api_key = None
                 then sm\<lparr>request_counts := (request_counts sm)(api_key \<mapsto> [])\<rparr> else sm);
          kept = filter (\<lambda>req_time. round_double (current_time - req_time)
                                      < real_of_int (rate_limit_window sm0))
                   (window_of sm0 api_key);
          sm1 = sm0\<lparr>request_counts := (request_counts sm0)(api_key \<mapsto> kept)\<rparr>
      in if rate_limit_requests sm1 \<le> int (length kept)
         then (Inl (HTTPException 429 ''Rate limit exceeded. Maximum 100 requests per minute.''), sm1)
         else (Inr (), sm1\<lparr>request_counts := (request_counts sm1)(api_key \<mapsto> kept @ [current_time])\<rparr>))"

definition rotate_api_key :: "string \<Rightarrow> string \<Rightarrow> security_manager \<Rightarrow> bool \<times> security_manager" where
  "rotate_api_key key_name new_key sm =
     (if key_name \<notin> set (map fst (api_keys sm)) then (False, sm)
      else (True, sm\<lparr>api_keys := AList.update key_name (sha256_hexdigest new_key) (api_keys sm)\<rparr>))"

text \<open>Successive calls of \<open>check_rate_limit\<close> for one key, at the given clock readings.\<close>

fun check_all ::
  "real list \<Rightarrow> string \<Rightarrow> security_manager \<Rightarrow> (py_exception + unit) list \<times> security_manager" where
  "check_all [] api_key sm = ([], sm)"
| "check_all (t # ts) api_key sm =
     (let (r, sm1) = check_rate_limit t api_key sm;
          (rs, sm2) = check_all ts api_key sm1
      in (r # rs, sm2))"

text \<open>
  The rate limiter as the specification words it: timestamps older than the cutoff
  \<open>now - window\<close> are dropped, the others remain.
\<close>

definition spec_check_rate_limit ::
  "real \<Rightarrow> string \<Rightarrow> security_manager \<Rightarrow> (py_exception + unit) \<times> security_manager" where
  "spec_check_rate_limit now api_key sm =
     (let cutoff = round_double (now - real_of_int (rate_limit_window sm));
          remaining = filter (\<lambda>t. \<not> t < cutoff) (window_of sm api_key)
      in if rate_limit_requests sm \<le> int (length remaining)
         then (Inl (HTTPException 429 ''Rate limit exceeded. Maximum 100 requests per minute.''),
               sm\<lparr>request_counts := (request_counts sm)(api_key \<mapsto> remaining)\<rparr>)
         else (Inr (),
               sm\<lparr>request_counts := (request_counts sm)(api_key \<mapsto> remaining @ [now])\<rparr>))"

section \<open>Agents (src/agents/base/agent\_interface.py)\<close>

datatype AgentStatus = IDLE | RUNNING | COMPLETED | FAILED | DISABLED

fun status_value :: "AgentStatus \<Rightarrow> string" where
  "status_value IDLE = ''idle''"
| "status_value RUNNING = ''running''"
| "status_value COMPLETED = ''completed''"
| "status_value FAILED = ''failed''"
| "status_value DISABLED = ''disabled''"

record processing_stats =
  tasks_completed :: int
  tasks_failed :: int
  total_processing_time :: real
  last_task_time :: "real option"

record workflow_trigger =
  trigger_name :: string
  trigger_config :: pydict
  added_at :: datetime

text \<open>What a call of \<open>agent.execute(parameters)\<close> does: it raises or it returns a value.\<close>

datatype exec_outcome = Raises py_exception | Returns pyval

text \<open>
  A \<open>BaseAgent\<close> object.  \<open>execute\<close> and \<open>validate_parameters\<close> are the methods of the
  concrete subclass; \<open>own_state\<close> is everything the subclass keeps for itself (for
  \<open>FileOrganizationAgent\<close>: its directories and its \<open>files_processed\<close>,
  \<open>duplicates_found\<close> counters), which \<open>execute\<close> may read and change, also when it
  raises.  The fields above it are the ones the manager reads and writes.
\<close>

record 'p agent =
  agent_name :: string
  status :: AgentStatus
  enabled :: bool
  last_activity :: "datetime option"
  processing_stats :: processing_stats
  webhook_enabled :: bool
  auto_report_status :: bool
  workflow_triggers :: "workflow_trigger list"
  own_state :: 'p
  execute :: "pydict \<Rightarrow> 'p \<Rightarrow> exec_outcome \<times> 'p"
  validate_parameters :: "pydict \<Rightarrow> bool"

definition BaseAgent_init ::
  "string \<Rightarrow> 'p \<Rightarrow> (pydict \<Rightarrow> 'p \<Rightarrow> exec_outcome \<times> 'p) \<Rightarrow> 'p agent" where
  "BaseAgent_init name st exe =
     \<lparr> agent_name = name, status = IDLE, enabled = True, last_activity = None,
       processing_stats = \<lparr> tasks_completed = 0, tasks_failed = 0,
                            total_processing_time = 0, last_task_time = None \<rparr>,
       webhook_enabled = True, auto_report_status = True, workflow_triggers = [],
       own_state = st, execute = exe, validate_parameters = (\<lambda>parameters. True) \<rparr>"

text \<open>
  \<open>update_status\<close> sets the status and the activity time.  Its \<open>_report_status_change\<close>
  builds a throw-away \<open>WebhookHandler\<close> and asks it for \<open>send_system_alert\<close>, a method
  that class does not have; the AttributeError is swallowed by \<open>except Exception: pass\<close>,
  so the report leaves no trace in the state; the \<open>message\<close> argument, which only feeds
  that report, is left out.
\<close>

definition update_status :: "AgentStatus \<Rightarrow> datetime \<Rightarrow> 'p agent \<Rightarrow> 'p agent" where
  "update_status st now a = a\<lparr>status := st, last_activity := Some now\<rparr>"

definition agent_add_workflow_trigger ::
  "string \<Rightarrow> pydict \<Rightarrow> datetime \<Rightarrow> 'p agent \<Rightarrow> 'p agent" where
  "agent_add_workflow_trigger name config now a =
     a\<lparr>workflow_triggers := workflow_triggers a @
          [\<lparr>trigger_name = name, trigger_config = config, added_at = now\<rparr>]\<rparr>"

definition stats_dict :: "processing_stats \<Rightarrow> pydict" where
  "stats_dict ps =
     [(''tasks_completed'', PInt (tasks_completed ps)),
      (''tasks_failed'', PInt (tasks_failed ps)),
      (''total_processing_time'', PFloat (total_processing_time ps)),
      (''last_task_time'', (case last_task_time ps of None \<Rightarrow> PNone | Some t \<Rightarrow> PFloat t))]"

definition get_health_metrics :: "'p agent \<Rightarrow> pydict" where
  "get_health_metrics a =
     [(''agent_name'', PStr (agent_name a)),
      (''status'', PStr (status_value (status a))),
      (''enabled'', PBool (enabled a)),
      (''last_activity'', (case last_activity a of None \<Rightarrow> PNone | Some t \<Rightarrow> PStr (isoformat t))),
      (''processing_stats'', PDict (stats_dict (processing_stats a))),
      (''webhook_enabled'', PBool (webhook_enabled a)),
      (''workflow_triggers_count'', PInt (int (length (workflow_triggers a))))]"

section \<open>AgentManager (src/agents/agent\_manager.py)\<close>

text \<open>
  \<open>agents\<close> is the dict registry name \<open>\<mapsto>\<close> agent object; \<open>agent_status_history\<close> is the
  list of history entries, each the dict that \<open>_add_to_history\<close> builds.
\<close>

record 'p agent_manager =
  agents :: "(string \<times> 'p agent) list"
  agent_status_history :: "pydict list"
  max_history :: nat

text \<open>
  The clock readings of one dispatch, in program order: \<open>update_status(RUNNING)\<close>, the
  measured \<open>(datetime.now() - start_time).total_seconds()\<close>, the final \<open>update_status\<close>,
  the history entry's timestamp and the returned dict's timestamp.
\<close>

record dispatch_clock =
  now_running :: datetime
  execution_time :: real
  now_outcome :: datetime
  now_history :: datetime
  now_result :: datetime

definition put_agent :: "string \<Rightarrow> 'p agent \<Rightarrow> 'p agent_manager \<Rightarrow> 'p agent_manager" where
  "put_agent name a am = am\<lparr>agents := AList.update name a (agents am)\<rparr>"

text \<open>
  \<open>_add_to_history\<close>.  The entry that \<open>pop(0)\<close> takes out of the list is returned next
  to the new state (the source drops it).
\<close>

definition history_entry :: "string \<Rightarrow> pydict \<Rightarrow> real \<Rightarrow> datetime \<Rightarrow> pydict" where
  "history_entry name result exec_time now =
     [(''agent_name'', PStr name),
      (''timestamp'', PStr (isoformat now)),
      (''execution_time'', PFloat exec_time),
      (''success'', get_or result ''success'' (PBool False)),
      (''result_summary'',
         PDict [(''status'', get_or result ''status'' (PStr ''unknown'')),
                (''message'', get_or result ''message'' (PStr [])),
                (''error'', get_or result ''error'' (PStr []))])]"

definition add_to_history ::
  "string \<Rightarrow> pydict \<Rightarrow> real \<Rightarrow> datetime \<Rightarrow> 'p agent_manager \<Rightarrow> pydict list \<times> 'p agent_manager" where
  "add_to_history name result exec_time now am =
     (let h = agent_status_history am @ [history_entry name result exec_time now]
      in if length h > max_history am
         then ([hd h], am\<lparr>agent_status_history := tl h\<rparr>)
         else ([], am\<lparr>agent_status_history := h\<rparr>))"

text \<open>The \<open>except Exception as e\<close> block of \<open>execute_agent\<close>.\<close>

definition execute_agent_except ::
  "py_exception \<Rightarrow> string \<Rightarrow> dispatch_clock \<Rightarrow> 'p agent_manager \<Rightarrow>
   pydict \<times> pydict list \<times> 'p agent_manager" where
  "execute_agent_except e name clk am =
     (let am' = (case map_of (agents am) name of
                   None \<Rightarrow> am
                 | Some a \<Rightarrow> put_agent name (update_status FAILED (now_outcome clk) a) am)
      in ([(''success'', PBool False),
           (''error'', PStr (str_exc e)),
           (''agent_name'', PStr name),
           (''timestamp'', PStr (isoformat (now_result clk)))], [], am'))"

text \<open>
  \<open>execute_agent\<close>: the returned dict, the history entries evicted during the call, and
  the manager afterwards.  A value returned by \<open>execute\<close> that is not a dict makes
  \<open>result.get\<close> raise an AttributeError, which the same \<open>except\<close> block catches.
\<close>

definition execute_agent ::
  "string \<Rightarrow> pydict \<Rightarrow> dispatch_clock \<Rightarrow> 'p agent_manager \<Rightarrow>
   pydict \<times> pydict list \<times> 'p agent_manager" where
  "execute_agent name parameters clk am =
     (case map_of (agents am) name of
        None \<Rightarrow>
          ([(''success'', PBool False),
            (''error'', PStr (''Agent '' @ name @ '' not found'')),
            (''available_agents'', PList (map (\<lambda>(n, a). PStr n) (agents am)))], [], am)
      | Some a \<Rightarrow>
          if \<not> enabled a then
            ([(''success'', PBool False),
              (''error'', PStr (''Agent '' @ name @ '' is disabled''))], [], am)
          else if \<not> validate_parameters a parameters then
            ([(''success'', PBool False),
              (''error'', PStr (''Invalid parameters for agent '' @ name))], [], am)
          else
            (let a1 = update_status RUNNING (now_running clk) a;
                 (outcome, st') = execute a1 parameters (own_state a1);
                 a2 = a1\<lparr>own_state := st'\<rparr>
             in case outcome of
                  Raises e \<Rightarrow> execute_agent_except e name clk (put_agent name a2 am)
                | Returns (PDict result) \<Rightarrow>
                    (let ps = processing_stats a2;
                         a3 = (if truthy (get_or result ''success'' PNone)
                               then update_status COMPLETED (now_outcome clk)
                                      (a2\<lparr>processing_stats := ps\<lparr>tasks_completed := tasks_completed ps + 1\<rparr>\<rparr>)
                               else update_status FAILED (now_outcome clk)
                                      (a2\<lparr>processing_stats := ps\<lparr>tasks_failed := tasks_failed ps + 1\<rparr>\<rparr>));
                         ps3 = processing_stats a3;
                         a4 = a3\<lparr>processing_stats :=
                                   ps3\<lparr>total_processing_time :=
                                          round_double (total_processing_time ps3 + execution_time clk),
                                       last_task_time := Some (execution_time clk)\<rparr>\<rparr>;
                         (popped, am') = add_to_history name result (execution_time clk)
                                           (now_history clk) (put_agent name a4 am)
                     in (dict_update result
                           [(''agent_name'', PStr name),
                            (''execution_time'', PFloat (execution_time clk)),
                            (''timestamp'', PStr (isoformat (now_result clk))),
                            (''agent_status'', PStr (status_value (status a4)))],
                         popped, am'))
                | Returns v \<Rightarrow>
                    execute_agent_except
                      (AttributeError ([CHR 0x27] @ type_name v @ [CHR 0x27] @
                                       '' object has no attribute '' @ [CHR 0x27] @ ''get'' @ [CHR 0x27]))
                      name clk (put_agent name a2 am)))"

definition enable_agent :: "string \<Rightarrow> datetime \<Rightarrow> 'p agent_manager \<Rightarrow> pydict \<times> 'p agent_manager" where
  "enable_agent name now am =
     (case map_of (agents am) name of
        None \<Rightarrow> ([(''success'', PBool False),
                  (''error'', PStr (''Agent '' @ name @ '' not found''))], am)
      | Some a \<Rightarrow>
          (let a' = update_status IDLE now (a\<lparr>enabled := True\<rparr>)
           in ([(''success'', PBool True),
                (''message'', PStr (''Agent '' @ name @ '' enabled'')),
                (''agent_status'', PDict (get_health_metrics a'))],
               put_agent name a' am)))"

definition disable_agent :: "string \<Rightarrow> datetime \<Rightarrow> 'p agent_manager \<Rightarrow> pydict \<times> 'p agent_manager" where
  "disable_agent name now am =
     (case map_of (agents am) name of
        None \<Rightarrow> ([(''success'', PBool False),
                  (''error'', PStr (''Agent '' @ name @ '' not found''))], am)
      | Some a \<Rightarrow>
          (let a' = update_status DISABLED now (a\<lparr>enabled := False\<rparr>)
           in ([(''success'', PBool True),
                (''message'', PStr (''Agent '' @ name @ '' disabled'')),
                (''agent_status'', PDict (get_health_metrics a'))],
               put_agent name a' am)))"

definition add_workflow_trigger ::
  "string \<Rightarrow> string \<Rightarrow> pydict \<Rightarrow> datetime \<Rightarrow> 'p agent_manager \<Rightarrow> pydict \<times> 'p agent_manager" where
  "add_workflow_trigger name tname config now am =
     (case map_of (agents am) name of
        None \<Rightarrow> ([(''success'', PBool False),
                  (''error'', PStr (''Agent '' @ name @ '' not found''))], am)
      | Some a \<Rightarrow>
          ([(''success'', PBool True),
            (''message'', PStr (''Workflow trigger added to '' @ name)),
            (''trigger'', PDict [(''name'', PStr tname), (''config'', PDict config),
                                 (''agent'', PStr name)])],
           put_agent name (agent_add_workflow_trigger tname config now a) am))"

text \<open>
  \<open>get_execution_history(agent_name)\<close> filters the history by
  \<open>entry['agent_name'] == agent_name\<close>; the same test counts an agent's entries.
\<close>

definition entries_of :: "string \<Rightarrow> pydict list \<Rightarrow> pydict list" where
  "entries_of name h = filter (\<lambda>entry. map_of entry ''agent_name'' = Some (PStr name)) h"

text \<open>The operations of the manager that change its state, and a run of them.\<close>

datatype manager_op =
    Execute string pydict dispatch_clock
  | Enable string datetime
  | Disable string datetime
  | AddTrigger string string pydict datetime

fun manager_step ::
  "manager_op \<Rightarrow> 'p agent_manager \<Rightarrow> pydict list \<times> 'p agent_manager" where
  "manager_step (Execute name parameters clk) am = snd (execute_agent name parameters clk am)"
| "manager_step (Enable name now) am = ([], snd (enable_agent name now am))"
| "manager_step (Disable name now) am = ([], snd (disable_agent name now am))"
| "manager_step (AddTrigger name tname config now) am =
     ([], snd (add_workflow_trigger name tname config now am))"

text \<open>\<open>manager_run\<close> collects, in order, the entries evicted from the history.\<close>

fun manager_run ::
  "manager_op list \<Rightarrow> pydict list \<times> 'p agent_manager \<Rightarrow> pydict list \<times> 'p agent_manager" where
  "manager_run [] (ev, am) = (ev, am)"
| "manager_run (op # ops) (ev, am) =
     (let (popped, am') = manager_step op am in manager_run ops (ev @ popped, am'))"

text \<open>
  The manager at process start, after \<open>_initialize_agents\<close> and \<open>_setup_workflow_triggers\<close>:
  one agent under the key \<open>file_organization\<close>, with its two default triggers.
\<close>

definition AgentManager_init ::
  "'p \<Rightarrow> (pydict \<Rightarrow> 'p \<Rightarrow> exec_outcome \<times> 'p) \<Rightarrow> datetime \<Rightarrow> datetime \<Rightarrow> 'p agent_manager" where
  "AgentManager_init st exe t1 t2 =
     \<lparr> agents =
         [(''file_organization'',
           agent_add_workflow_trigger ''batch_processing''
             [(''type'', PStr ''scheduled''), (''schedule'', PStr ''0 */6 * * *''),
              (''action'', PStr ''process_documents'')] t2
             (agent_add_workflow_trigger ''file_upload''
                [(''type'', PStr ''webhook''), (''endpoint'', PStr ''/webhook/file-organization''),
                 (''triggers'', PList [PStr ''new_file'', PStr ''file_modified'',
                                       PStr ''file_deleted''])] t1
                (BaseAgent_init ''File Organization Agent'' st exe)))],
       agent_status_history = [],
       max_history = 1000 \<rparr>"

text \<open>Successive calls of \<open>_add_to_history\<close>, each with its agent name, result, time and clock.\<close>

fun record_all ::
  "(string \<times> pydict \<times> real \<times> datetime) list \<Rightarrow> 'p agent_manager \<Rightarrow> 'p agent_manager" where
  "record_all [] am = am"
| "record_all ((name, result, exec_time, now) # es) am =
     record_all es (snd (add_to_history name result exec_time now am))"

section \<open>WebhookHandler (src/web/n8n\_integration/webhook\_handler.py)\<close>

text \<open>
  A log record is the call's level, the message as the source writes it and the values it
  interpolates (before formatting).
\<close>

datatype log_record =
    LogInfo string "pyval list"
  | LogError string "pyval list"

text \<open>
  The webhook dicts are shared objects: \<open>process_webhook\<close> puts the caller's dict itself
  into the history list and into the queue, and the dispatcher later updates it through
  the queue's reference.  So the handler's state holds references (\<open>nat\<close>) in
  \<open>webhook_history\<close> and \<open>processing_queue\<close>, and \<open>heap\<close> maps a reference to the dict
  it points to.  \<open>processing_queue\<close> is the unbounded FIFO \<open>asyncio.Queue\<close>:
  \<open>put\<close> appends at the end, \<open>get\<close> takes the head.
\<close>

record webhook_handler =
  n8n_webhook_url :: string
  webhook_history :: "nat list"
  processing_queue :: "nat list"
  webhook_max_history :: nat
  heap :: "nat \<Rightarrow> pydict"
  log :: "log_record list"

definition WebhookHandler_init :: "string \<Rightarrow> (nat \<Rightarrow> pydict) \<Rightarrow> webhook_handler" where
  "WebhookHandler_init url objects =
     \<lparr> n8n_webhook_url = url, webhook_history = [], processing_queue = [],
       webhook_max_history = 1000, heap = objects,
       log = [LogInfo ''Webhook Handler initialized for N8N: {n8n_webhook_url}'' [PStr url]] \<rparr>"

definition generate_webhook_id :: "datetime \<Rightarrow> string" where
  "generate_webhook_id now = ''webhook_'' @ strftime_id now"

text \<open>
  \<open>process_webhook(webhook_data)\<close> for the dict at \<open>ref\<close>; \<open>t_received\<close> and \<open>t_id\<close> are
  the two clock readings, for \<open>received_at\<close> and for the id.  On a dict none of its
  statements raises, so its \<open>except\<close> block is not entered.
\<close>

definition process_webhook ::
  "nat \<Rightarrow> datetime \<Rightarrow> datetime \<Rightarrow> webhook_handler \<Rightarrow> pydict \<times> webhook_handler" where
  "process_webhook ref t_received t_id wh =
     (let webhook_data = dict_update (heap wh ref)
            [(''received_at'', PStr (isoformat t_received)),
             (''processed'', PBool False),
             (''webhook_id'', PStr (generate_webhook_id t_id))];
          wh1 = wh\<lparr>heap := (heap wh)(ref := webhook_data)\<rparr>;
          h = webhook_history wh1 @ [ref];
          wh2 = wh1\<lparr>webhook_history := (if length h > webhook_max_history wh1 then tl h else h)\<rparr>;
          wh3 = wh2\<lparr>processing_queue := processing_queue wh2 @ [ref]\<rparr>;
          wid = get_or webhook_data ''webhook_id'' PNone;
          wh4 = wh3\<lparr>log := log wh3 @
                  [LogInfo ''Webhook queued for processing: {webhook_data['webhook_id']}'' [wid]]\<rparr>
      in ([(''success'', PBool True), (''status'', PStr ''accepted''),
           (''webhook_id'', wid), (''processing'', PStr ''queued'')], wh4))"

text \<open>The type handlers.  Only \<open>severity.upper()\<close> can raise: when the value is no string.\<close>

definition handle_system_alert :: "pydict \<Rightarrow> py_exception + log_record \<times> pydict" where
  "handle_system_alert webhook_data =
     (let alert_type = get_or webhook_data ''alert_type'' (PStr ''info'');
          message = get_or webhook_data ''message'' (PStr []);
          severity = get_or webhook_data ''severity'' (PStr ''info'')
      in case severity of
           PStr s \<Rightarrow>
             Inr (LogInfo ''System Alert [{severity.upper()}]: {message}'' [severity, message],
                  [(''status'', PStr ''processed''), (''alert_type'', alert_type),
                   (''severity'', severity), (''action'', PStr ''logged'')])
         | v \<Rightarrow>
             Inl (AttributeError ([CHR 0x27] @ type_name v @ [CHR 0x27] @
                                  '' object has no attribute '' @ [CHR 0x27] @ ''upper'' @ [CHR 0x27])))"

definition handle_file_organization :: "pydict \<Rightarrow> py_exception + log_record \<times> pydict" where
  "handle_file_organization webhook_data =
     (let action = get_or webhook_data ''action'' (PStr ''unknown'');
          file_path = get_or webhook_data ''file_path'' (PStr [])
      in Inr (LogInfo ''File Organization: {action} - {file_path}'' [action, file_path],
              [(''status'', PStr ''processed''), (''action'', action),
               (''file_path'', file_path), (''result'', PStr ''acknowledged'')]))"

definition handle_content_analysis :: "pydict \<Rightarrow> py_exception + log_record \<times> pydict" where
  "handle_content_analysis webhook_data =
     (let content_type = get_or webhook_data ''content_type'' (PStr ''unknown'');
          content_id = get_or webhook_data ''content_id'' (PStr [])
      in Inr (LogInfo ''Content Analysis: {content_type} - {content_id}'' [content_type, content_id],
              [(''status'', PStr ''processed''), (''content_type'', content_type),
               (''content_id'', content_id), (''result'', PStr ''acknowledged'')]))"

text \<open>The returned dict literal names the key \<open>status\<close> twice; the later value wins.\<close>

definition handle_agent_status :: "pydict \<Rightarrow> py_exception + log_record \<times> pydict" where
  "handle_agent_status webhook_data =
     (let agent = get_or webhook_data ''agent_name'' (PStr ''unknown'');
          st = get_or webhook_data ''status'' (PStr ''unknown'')
      in Inr (LogInfo ''Agent Status: {agent_name} - {status}'' [agent, st],
              dict_update []
                [(''status'', PStr ''processed''), (''agent_name'', agent),
                 (''status'', st), (''result'', PStr ''acknowledged'')]))"

definition handle_generic_webhook :: "pydict \<Rightarrow> py_exception + log_record \<times> pydict" where
  "handle_generic_webhook webhook_data =
     Inr (LogInfo ''Generic webhook received: {webhook_data.get('type', 'unknown')}''
            [get_or webhook_data ''type'' (PStr ''unknown'')],
          [(''status'', PStr ''processed''), (''type'', PStr ''generic''),
           (''result'', PStr ''acknowledged'')])"

text \<open>The \<open>if\<close>/\<open>elif\<close> chain inside the \<open>try\<close> of \<open>_route_webhook\<close>.\<close>

definition dispatch_handler :: "pydict \<Rightarrow> py_exception + log_record \<times> pydict" where
  "dispatch_handler webhook_data =
     (let webhook_type = get_or webhook_data ''type'' (PStr ''unknown'')
      in if webhook_type = PStr ''system_alert'' then handle_system_alert webhook_data
         else if webhook_type = PStr ''file_organization'' then handle_file_organization webhook_data
         else if webhook_type = PStr ''content_analysis'' then handle_content_analysis webhook_data
         else if webhook_type = PStr ''agent_status'' then handle_agent_status webhook_data
         else handle_generic_webhook webhook_data)"

text \<open>\<open>_route_webhook\<close>: the log records written and the dict returned.\<close>

definition route_webhook :: "pydict \<Rightarrow> log_record list \<times> pydict" where
  "route_webhook webhook_data =
     (case dispatch_handler webhook_data of
        Inr (l, result) \<Rightarrow> ([l], result)
      | Inl e \<Rightarrow>
          ([LogError ''Error routing webhook {webhook_type}: {e}''
              [get_or webhook_data ''type'' (PStr ''unknown''), PStr (str_exc e)]],
           [(''status'', PStr ''error''), (''message'', PStr (str_exc e))]))"

text \<open>
  The body of the dispatcher loop for the record \<open>ref\<close> that \<open>get()\<close> returned.
  \<open>webhook_data['webhook_id']\<close> raises KeyError when the key is gone; the loop's own
  \<open>except\<close> logs it.
\<close>

definition process_one :: "nat \<Rightarrow> datetime \<Rightarrow> webhook_handler \<Rightarrow> webhook_handler" where
  "process_one ref now wh =
     (let (logs, result) = route_webhook (heap wh ref);
          wh1 = wh\<lparr>log := log wh @ logs\<rparr>;
          webhook_data = dict_update (heap wh1 ref)
            [(''processed'', PBool True),
             (''processed_at'', PStr (isoformat now)),
             (''result'', PDict result)];
          wh2 = wh1\<lparr>heap := (heap wh1)(ref := webhook_data)\<rparr>
      in case map_of webhook_data ''webhook_id'' of
           Some wid \<Rightarrow>
             wh2\<lparr>log := log wh2 @ [LogInfo ''Webhook processed: {webhook_data['webhook_id']}'' [wid]]\<rparr>
         | None \<Rightarrow>
             wh2\<lparr>log := log wh2 @
                   [LogError ''Error in webhook queue processing: {e}''
                      [PStr (str_exc (KeyError ''webhook_id''))]]\<rparr>)"

text \<open>
  One iteration of \<open>while True\<close>: \<open>get()\<close> takes the head of the queue, or suspends
  (\<open>None\<close>) when the queue is empty.
\<close>

definition consume :: "datetime \<Rightarrow> webhook_handler \<Rightarrow> nat option \<times> webhook_handler" where
  "consume now wh =
     (case processing_queue wh of
        [] \<Rightarrow> (None, wh)
      | ref # q \<Rightarrow> (Some ref, process_one ref now (wh\<lparr>processing_queue := q\<rparr>)))"




definition is_processed :: "webhook_handler \<Rightarrow> nat \<Rightarrow> bool" where
  "is_processed wh ref = truthy (get_or (heap wh ref) ''processed'' PNone)"


text \<open>Submissions and dispatcher iterations, interleaved in any order.\<close>

datatype webhook_event = Submit nat datetime datetime | Consume datetime

fun webhook_step :: "webhook_event \<Rightarrow> webhook_handler \<Rightarrow> nat list \<times> webhook_handler" where
  "webhook_step (Submit ref t_received t_id) wh = ([], snd (process_webhook ref t_received t_id wh))"
| "webhook_step (Consume now) wh =
     (case consume now wh of (None, wh') \<Rightarrow> ([], wh') | (Some ref, wh') \<Rightarrow> ([ref], wh'))"

text \<open>\<open>webhook_run\<close> collects, in order, the references the dispatcher took.\<close>

fun webhook_run ::
  "webhook_event list \<Rightarrow> nat list \<times> webhook_handler \<Rightarrow> nat list \<times> webhook_handler" where
  "webhook_run [] (taken, wh) = (taken, wh)"
| "webhook_run (ev # evs) (taken, wh) =
     (let (refs, wh') = webhook_step ev wh in webhook_run evs (taken @ refs, wh'))"


fun submit_all :: "(nat \<times> datetime \<times> datetime) list \<Rightarrow> webhook_handler \<Rightarrow> webhook_handler" where
  "submit_all [] wh = wh"
| "submit_all ((ref, t_received, t_id) # subs) wh =
     submit_all subs (snd (process_webhook ref t_received t_id wh))"

section \<open>Notions used in the statements\<close>

text \<open>\<open>stats.completed + stats.failed\<close> of an agent.\<close>

definition tasks_total :: "'p agent \<Rightarrow> int" where
  "tasks_total a = tasks_completed (processing_stats a) + tasks_failed (processing_stats a)"


text \<open>
  The history is within its cap, and entries have been evicted only once it was full.
\<close>

definition within_cap :: "pydict list \<Rightarrow> 'p agent_manager \<Rightarrow> bool" where
  "within_cap ev am \<longleftrightarrow>
     length (agent_status_history am) \<le> max_history am \<and>
     (ev = [] \<or> length (agent_status_history am) = max_history am)"

text \<open>
  The agent object after \<open>execute\<close> has run (status \<open>running\<close>, own state as \<open>execute\<close>
  left it), and after the statistics update that follows a returned dict.
\<close>

definition started :: "dispatch_clock \<Rightarrow> 'p agent \<Rightarrow> 'p \<Rightarrow> 'p agent" where
  "started clk a st' = (update_status RUNNING (now_running clk) a)\<lparr>own_state := st'\<rparr>"

definition finished :: "dispatch_clock \<Rightarrow> pydict \<Rightarrow> 'p agent \<Rightarrow> 'p \<Rightarrow> 'p agent" where
  "finished clk result a st' =
     (let a2 = started clk a st';
          ps = processing_stats a2;
          a3 = (if truthy (get_or result ''success'' PNone)
                then update_status COMPLETED (now_outcome clk)
                       (a2\<lparr>processing_stats := ps\<lparr>tasks_completed := tasks_completed ps + 1\<rparr>\<rparr>)
                else update_status FAILED (now_outcome clk)
                       (a2\<lparr>processing_stats := ps\<lparr>tasks_failed := tasks_failed ps + 1\<rparr>\<rparr>));
          ps3 = processing_stats a3
      in a3\<lparr>processing_stats :=
               ps3\<lparr>total_processing_time :=
                      round_double (total_processing_time ps3 + execution_time clk),
                   last_task_time := Some (execution_time clk)\<rparr>\<rparr>)"

text \<open>The history entry that one call of \<open>_add_to_history\<close> appends.\<close>

definition entry_of :: "string \<times> pydict \<times> real \<times> datetime \<Rightarrow> pydict" where
  "entry_of = (\<lambda>(name, result, exec_time, now). history_entry name result exec_time now)"

text \<open>
  Two webhook dicts that agree on every key but \<open>processed\<close>, \<open>processed_at\<close> and
  \<open>result\<close>, the keys the dispatcher writes.
\<close>

definition same_payload :: "pydict \<Rightarrow> pydict \<Rightarrow> bool" where
  "same_payload d d' \<longleftrightarrow>
     map_of d |` (- {''processed'', ''processed_at'', ''result''}) =
     map_of d' |` (- {''processed'', ''processed_at'', ''result''})"

text \<open>Clock readings whose fields fit the widths of the id format.\<close>

definition valid_datetime :: "datetime \<Rightarrow> bool" where
  "valid_datetime t \<longleftrightarrow>
     year t < 10000 \<and> month t < 100 \<and> day t < 100 \<and> hour t < 100 \<and> minute t < 100 \<and>
     second t < 100 \<and> microsecond t < 1000000"

section \<open>Test doubles and clock readings for the concrete runs\<close>

text \<open>
  A spy agent that counts its invocations in its own state and reports success, and an
  agent whose \<open>execute\<close> raises (after counting the invocation).
\<close>

definition spy_execute :: "pydict \<Rightarrow> nat \<Rightarrow> exec_outcome \<times> nat" where
  "spy_execute parameters calls =
     (Returns (PDict [(''success'', PBool True), (''files_processed'', PInt 3)]), Suc calls)"

definition raising_execute :: "pydict \<Rightarrow> nat \<Rightarrow> exec_outcome \<times> nat" where
  "raising_execute parameters calls = (Raises (Exception ''disk full''), Suc calls)"

definition noon :: datetime where
  "noon = \<lparr> year = 2025, month = 11, day = 2, hour = 12, minute = 0, second = 0, microsecond = 0 \<rparr>"

definition clock0 :: dispatch_clock where
  "clock0 = \<lparr> now_running = noon, execution_time = 1 / 4, now_outcome = noon,
              now_history = noon, now_result = noon \<rparr>"

text \<open>
  Webhook dicts as callers hand them in: object 0 is a system alert whose \<open>severity\<close> is
  the integer 5 (its handler raises on \<open>severity.upper()\<close>), every other object is a
  file-organization webhook as the HTTP layer builds it.
\<close>

definition sample_objects :: "nat \<Rightarrow> pydict" where
  "sample_objects ref =
     (if ref = 0 then [(''type'', PStr ''system_alert''), (''severity'', PInt 5)]
      else [(''type'', PStr ''file_organization''),
            (''data'', PDict [(''operation'', PStr ''noop'')]), (''source'', PStr ''n8n'')])"

definition handler0 :: webhook_handler where
  "handler0 = WebhookHandler_init ''http://localhost:5678'' sample_objects"


definition two_queued :: webhook_handler where
  "two_queued = submit_all [(0, noon, noon), (1, noon, noon)] handler0"


text \<open>
  1001 submissions of distinct webhook dicts, and 1001 calls of \<open>_add_to_history\<close> with
  distinct execution times.
\<close>

definition submissions_1001 :: "(nat \<times> datetime \<times> datetime) list" where
  "submissions_1001 = (0, noon, noon) # map (\<lambda>i. (Suc i, noon, noon)) [0..<1000]"

definition records_1001 :: "(string \<times> pydict \<times> real \<times> datetime) list" where
  "records_1001 =
     (''file_organization'', [], 0, noon) #
     map (\<lambda>i. (''file_organization'', [], real (Suc i), noon)) [0..<1000]"

section \<open>Verification: floating-point rounding\<close>

lemma exponent_search_eq:
  "- 1022 \<le> e \<Longrightarrow> e \<le> int n - 1022 \<Longrightarrow> 2 powi e \<le> a \<Longrightarrow> a < 2 powi (e + 1) \<Longrightarrow>
   exponent_search n a = e"
proof (induction n)
  case 0
  then show ?case by simp
next
  case (Suc n)
  show ?case
  proof (cases "e = int (Suc n) - 1022")
    case True
    then show ?thesis using Suc.prems by simp
  next
    case False
    then have le: "e + 1 \<le> int (Suc n) - 1022" using Suc.prems(2) by simp
    have "(2::real) powi (e + 1) \<le> 2 powi (int (Suc n) - 1022)"
      by (rule power_int_increasing [OF le]) simp
    then have "\<not> 2 powi (int (Suc n) - 1022) \<le> a" using Suc.prems(4) by simp
    moreover have "exponent_search n a = e"
      using Suc.prems le by (intro Suc.IH) simp_all
    ultimately show ?thesis by simp
  qed
qed

text \<open>The rounding of a number whose binary exponent is known.\<close>

lemma round_double_eq:
  assumes "- 1022 \<le> e" "e \<le> 1023" "2 powi e \<le> \<bar>x\<bar>" "\<bar>x\<bar> < 2 powi (e + 1)"
  shows "round_double x = of_int (round_half_even (x / 2 powi (e - 52))) * 2 powi (e - 52)"
proof -
  have "double_exponent x = e"
    unfolding double_exponent_def using assms by (intro exponent_search_eq) simp_all
  then show ?thesis by (simp add: round_double_def Let_def)
qed

lemma round_half_even_of_int [simp]: "round_half_even (of_int m) = m"
  by (simp add: round_half_even_def)

lemma round_double_exact:
  assumes "- 1022 \<le> e" "e \<le> 1023" "2 powi e \<le> \<bar>x\<bar>" "\<bar>x\<bar> < 2 powi (e + 1)"
    and "x / 2 powi (e - 52) = of_int m"
  shows "round_double x = x"
proof -
  have "round_double x = of_int m * 2 powi (e - 52)"
    using round_double_eq [OF assms(1-4)] assms(5) by simp
  also have "\<dots> = x" using assms(5) by (simp add: field_simps)
  finally show ?thesis .
qed

lemma round_double_0 [simp]: "round_double 0 = 0"
  by (simp add: round_double_def round_half_even_def)

lemma round_double_1 [simp]: "round_double 1 = 1"
  by (rule round_double_exact [where e = 0 and m = "2 ^ 52"]) simp_all

lemma round_double_59 [simp]: "round_double 59 = 59"
  by (rule round_double_exact [where e = 5 and m = "59 * 2 ^ 47"]) simp_all

lemma round_double_minus_59 [simp]: "round_double (- 59) = - 59"
  by (rule round_double_exact [where e = 5 and m = "- 59 * 2 ^ 47"]) simp_all

lemma round_double_60 [simp]: "round_double 60 = 60"
  by (rule round_double_exact [where e = 5 and m = "60 * 2 ^ 47"]) simp_all

lemma round_double_100 [simp]: "round_double 100 = 100"
  by (rule round_double_exact [where e = 6 and m = "100 * 2 ^ 46"]) simp_all

text \<open>
  The floats written \<open>0.3\<close> and \<open>60.3\<close> are 5404319552844595 / 2^54 and
  4243235273913139 / 2^46.  Their exact difference is below 60; the float subtraction
  returns 60.0.
\<close>

lemma round_double_60_3_minus_0_3:
  "round_double (4243235273913139 / 70368744177664 - 5404319552844595 / 18014398509481984) = 60"
  by (subst round_double_eq [where e = 5]) (simp_all add: round_half_even_def)



section \<open>Verification: SecurityManager\<close>

lemma length_hex_word: "length (hex_word w) = 8"
  by (simp add: hex_word_def)

lemma length_hexdigest: "length (hexdigest st) = 64"
  by (cases st rule: hexdigest.cases) (simp add: length_hex_word)

lemma length_sha256_hexdigest: "length (sha256_hexdigest s) = 64"
  by (simp add: sha256_hexdigest_def length_hexdigest)

lemma check_rate_limit_result:
  "fst (check_rate_limit now k sm) =
     (if rate_limit_requests sm \<le>
           int (length (filter (\<lambda>t. round_double (now - t) < real_of_int (rate_limit_window sm)) (window_of sm k)))
      then Inl (HTTPException 429 ''Rate limit exceeded. Maximum 100 requests per minute.'')
      else Inr ())"
  by (simp add: check_rate_limit_def window_of_def Let_def split: option.splits)

lemma check_rate_limit_window:
  "window_of (snd (check_rate_limit now k sm)) k =
     (let kept = filter (\<lambda>t. round_double (now - t) < real_of_int (rate_limit_window sm)) (window_of sm k)
      in if rate_limit_requests sm \<le> int (length kept) then kept else kept @ [now])"
  by (simp add: check_rate_limit_def window_of_def Let_def split: option.splits)

lemma check_rate_limit_config:
  "rate_limit_window (snd (check_rate_limit now k sm)) = rate_limit_window sm \<and>
   rate_limit_requests (snd (check_rate_limit now k sm)) = rate_limit_requests sm \<and>
   api_keys (snd (check_rate_limit now k sm)) = api_keys sm"
  by (simp add: check_rate_limit_def Let_def)

lemma check_all_accepts:
  "window_of sm k = w \<Longrightarrow>
   \<forall>t\<in>set (w @ ts). \<forall>u\<in>set (w @ ts). round_double (t - u) < real_of_int (rate_limit_window sm) \<Longrightarrow>
   int (length w + length ts) \<le> rate_limit_requests sm \<Longrightarrow>
   fst (check_all ts k sm) = replicate (length ts) (Inr ()) \<and>
   window_of (snd (check_all ts k sm)) k = w @ ts \<and>
   rate_limit_window (snd (check_all ts k sm)) = rate_limit_window sm \<and>
   rate_limit_requests (snd (check_all ts k sm)) = rate_limit_requests sm"
proof (induction ts arbitrary: sm w)
  case Nil
  then show ?case by simp
next
  case (Cons t ts)
  let ?sm1 = "snd (check_rate_limit t k sm)"
  have all: "filter (\<lambda>u. round_double (t - u) < real_of_int (rate_limit_window sm)) w = w"
    using Cons.prems(2) by (auto simp: filter_id_conv)
  have lt: "\<not> rate_limit_requests sm \<le> int (length w)"
    using Cons.prems(3) by simp
  have r: "fst (check_rate_limit t k sm) = Inr ()"
    using all lt Cons.prems(1) by (simp add: check_rate_limit_result)
  have w1: "window_of ?sm1 k = w @ [t]"
    using all lt Cons.prems(1) by (simp add: check_rate_limit_window Let_def)
  have cfg: "rate_limit_window ?sm1 = rate_limit_window sm"
    "rate_limit_requests ?sm1 = rate_limit_requests sm"
    by (simp_all add: check_rate_limit_config)
  have ih: "fst (check_all ts k ?sm1) = replicate (length ts) (Inr ()) \<and>
            window_of (snd (check_all ts k ?sm1)) k = (w @ [t]) @ ts \<and>
            rate_limit_window (snd (check_all ts k ?sm1)) = rate_limit_window ?sm1 \<and>
            rate_limit_requests (snd (check_all ts k ?sm1)) = rate_limit_requests ?sm1"
    using Cons.prems(2,3) by (intro Cons.IH [OF w1]) (simp_all add: cfg)
  show ?case
    using r ih cfg by (simp add: split_beta)
qed


text \<open>
  Claim C4, as the code has it.  \<open>check_rate_limit\<close> keeps of the key's window exactly the
  timestamps whose age, as the float subtraction \<open>current_time - req_time\<close> returns it,
  is below \<open>rate_limit_window\<close>; a timestamp whose computed age is exactly the window is
  dropped with the older ones.  It fails with HTTP 429 iff the number kept is at least
  \<open>rate_limit_requests\<close>, and otherwise appends \<open>now\<close> and succeeds.  Consequently, on
  a fresh key, when as many requests as the limit allows and one more have all their
  computed differences below the window, the first ones succeed and the extra one fails
  with 429; a request made once the computed age of the first of them has reached the
  window succeeds.
\<close>

theorem check_rate_limit_sliding_window:
  "fst (check_rate_limit now k sm) =
     (if rate_limit_requests sm \<le>
           int (length (filter (\<lambda>t. round_double (now - t) < real_of_int (rate_limit_window sm)) (window_of sm k)))
      then Inl (HTTPException 429 ''Rate limit exceeded. Maximum 100 requests per minute.'')
      else Inr ())
   \<and> window_of (snd (check_rate_limit now k sm)) k =
     (if rate_limit_requests sm \<le>
           int (length (filter (\<lambda>t. round_double (now - t) < real_of_int (rate_limit_window sm)) (window_of sm k)))
      then filter (\<lambda>t. round_double (now - t) < real_of_int (rate_limit_window sm)) (window_of sm k)
      else filter (\<lambda>t. round_double (now - t) < real_of_int (rate_limit_window sm)) (window_of sm k) @ [now])
   \<and> (window_of sm k = [] \<and> ts \<noteq> [] \<and> int (length ts) = rate_limit_requests sm \<and>
      (\<forall>t\<in>set (ts @ [t']). \<forall>u\<in>set (ts @ [t']). round_double (t - u) < real_of_int (rate_limit_window sm)) \<and>
      real_of_int (rate_limit_window sm) \<le> round_double (t'' - hd ts) \<longrightarrow>
      fst (check_all ts k sm) = replicate (length ts) (Inr ()) \<and>
      fst (check_rate_limit t' k (snd (check_all ts k sm))) =
        Inl (HTTPException 429 ''Rate limit exceeded. Maximum 100 requests per minute.'') \<and>
      fst (check_rate_limit t'' k
             (snd (check_rate_limit t' k (snd (check_all ts k sm))))) = Inr ())"
proof (intro conjI impI)
  show "fst (check_rate_limit now k sm) =
     (if rate_limit_requests sm \<le>
           int (length (filter (\<lambda>t. round_double (now - t) < real_of_int (rate_limit_window sm)) (window_of sm k)))
      then Inl (HTTPException 429 ''Rate limit exceeded. Maximum 100 requests per minute.'')
      else Inr ())"
    by (rule check_rate_limit_result)
next
  show "window_of (snd (check_rate_limit now k sm)) k =
     (if rate_limit_requests sm \<le>
           int (length (filter (\<lambda>t. round_double (now - t) < real_of_int (rate_limit_window sm)) (window_of sm k)))
      then filter (\<lambda>t. round_double (now - t) < real_of_int (rate_limit_window sm)) (window_of sm k)
      else filter (\<lambda>t. round_double (now - t) < real_of_int (rate_limit_window sm)) (window_of sm k) @ [now])"
    by (simp add: check_rate_limit_window Let_def)
next
  assume a: "window_of sm k = [] \<and> ts \<noteq> [] \<and> int (length ts) = rate_limit_requests sm \<and>
      (\<forall>t\<in>set (ts @ [t']). \<forall>u\<in>set (ts @ [t']). round_double (t - u) < real_of_int (rate_limit_window sm)) \<and>
      real_of_int (rate_limit_window sm) \<le> round_double (t'' - hd ts)"
  let ?W = "real_of_int (rate_limit_window sm)"
  let ?sm1 = "snd (check_all ts k sm)"
  let ?sm2 = "snd (check_rate_limit t' k ?sm1)"
  have near: "\<forall>t\<in>set ([] @ ts). \<forall>u\<in>set ([] @ ts). round_double (t - u) < ?W"
    using a by simp
  have run: "fst (check_all ts k sm) = replicate (length ts) (Inr ()) \<and>
             window_of ?sm1 k = [] @ ts \<and>
             rate_limit_window ?sm1 = rate_limit_window sm \<and>
             rate_limit_requests ?sm1 = rate_limit_requests sm"
    using a by (intro check_all_accepts [OF _ near]) simp_all
  have keep: "filter (\<lambda>u. round_double (t' - u) < ?W) ts = ts"
    using a by (auto simp: filter_id_conv)
  have w2: "window_of ?sm2 k = ts"
    using run keep a by (simp add: check_rate_limit_window Let_def)
  have cfg2: "rate_limit_window ?sm2 = rate_limit_window sm"
    "rate_limit_requests ?sm2 = rate_limit_requests sm"
    using run by (simp_all add: check_rate_limit_config)
  have "hd ts \<in> set ts" using a by simp
  moreover have "\<not> round_double (t'' - hd ts) < ?W" using a by simp
  ultimately have "filter (\<lambda>u. round_double (t'' - u) < ?W) ts \<noteq> ts"
    by (auto simp: filter_id_conv)
  then have "length (filter (\<lambda>u. round_double (t'' - u) < ?W) ts) < length ts"
    using length_filter_le [of "\<lambda>u. round_double (t'' - u) < ?W" ts]
    by (metis filter_True le_neq_implies_less length_filter_less)
  then have less: "\<not> rate_limit_requests sm \<le> int (length (filter (\<lambda>u. round_double (t'' - u) < ?W) ts))"
    using a by simp
  show "fst (check_all ts k sm) = replicate (length ts) (Inr ())"
    using run by simp
  show "fst (check_rate_limit t' k ?sm1) =
        Inl (HTTPException 429 ''Rate limit exceeded. Maximum 100 requests per minute.'')"
    using run keep a by (simp add: check_rate_limit_result)
  show "fst (check_rate_limit t'' k ?sm2) = Inr ()"
    using w2 cfg2 less by (simp add: check_rate_limit_result)
qed

text \<open>
  The initial configuration (60 seconds, 100 requests): 100 requests at time 0 succeed,
  the request at time 59 is refused, the request at time 60 succeeds.
\<close>

theorem check_rate_limit_sliding_window_witness:
  "fst (check_all (replicate 100 0) ''sk_codealchemy_n8n_2025'' SecurityManager_init) =
     replicate 100 (Inr ())
   \<and> fst (check_rate_limit 59 ''sk_codealchemy_n8n_2025''
           (snd (check_all (replicate 100 0) ''sk_codealchemy_n8n_2025'' SecurityManager_init))) =
       Inl (HTTPException 429 ''Rate limit exceeded. Maximum 100 requests per minute.'')
   \<and> fst (check_rate_limit 60 ''sk_codealchemy_n8n_2025''
           (snd (check_rate_limit 59 ''sk_codealchemy_n8n_2025''
             (snd (check_all (replicate 100 0) ''sk_codealchemy_n8n_2025'' SecurityManager_init))))) =
       Inr ()"
  using check_rate_limit_sliding_window
    [of 0 "''sk_codealchemy_n8n_2025''" SecurityManager_init "replicate 100 0" 59 60]
  by (simp add: SecurityManager_init_def window_of_def)

text \<open>
  Claim C4 as the specification words it (only timestamps older than the cutoff
  \<open>now - 60\<close> are dropped) fails on the boundary: after 100 requests at time 0.0 the
  request at time 60.0 meets 100 timestamps that are exactly 60 seconds old, none of them
  older than the cutoff 0.0.  The code drops them and accepts; the specification's wording
  keeps them and refuses.
\<close>

theorem check_rate_limit_boundary_counterexample:
  "fst (check_rate_limit 60 ''sk_codealchemy_n8n_2025''
          (snd (check_all (replicate 100 0) ''sk_codealchemy_n8n_2025'' SecurityManager_init))) = Inr ()
   \<and> fst (spec_check_rate_limit 60 ''sk_codealchemy_n8n_2025''
          (snd (check_all (replicate 100 0) ''sk_codealchemy_n8n_2025'' SecurityManager_init))) =
       Inl (HTTPException 429 ''Rate limit exceeded. Maximum 100 requests per minute.'')"
proof -
  let ?k = "''sk_codealchemy_n8n_2025''"
  let ?sm = "snd (check_all (replicate 100 0) ?k SecurityManager_init)"
  have w0: "window_of SecurityManager_init ?k = []"
    by (simp add: SecurityManager_init_def window_of_def)
  have near: "\<forall>t\<in>set ([] @ replicate 100 (0::real)). \<forall>u\<in>set ([] @ replicate 100 0).
                round_double (t - u) < real_of_int (rate_limit_window SecurityManager_init)"
    by (simp add: SecurityManager_init_def)
  have run: "fst (check_all (replicate 100 0) ?k SecurityManager_init) =
               replicate (length (replicate 100 (0::real))) (Inr ()) \<and>
             window_of ?sm ?k = [] @ replicate 100 0 \<and>
             rate_limit_window ?sm = rate_limit_window SecurityManager_init \<and>
             rate_limit_requests ?sm = rate_limit_requests SecurityManager_init"
    by (intro check_all_accepts [OF w0 near]) (simp add: SecurityManager_init_def)
  have cfg: "rate_limit_window ?sm = 60" "rate_limit_requests ?sm = 100"
    "window_of ?sm ?k = replicate 100 0"
    using run by (simp_all add: SecurityManager_init_def)
  show ?thesis
    by (simp add: check_rate_limit_result spec_check_rate_limit_def cfg Let_def)
qed


text \<open>
  The same happens inside the window's last rounding step: 100 requests at the float 0.3
  and one at the float 60.3 are less than 60 seconds apart, but the computed age is 60.0
  and the request is accepted.
\<close>

lemma check_rate_limit_rounded_age:
  "fst (check_rate_limit (4243235273913139 / 70368744177664) ''sk_codealchemy_n8n_2025''
          (snd (check_all (replicate 100 (5404319552844595 / 18014398509481984))
                  ''sk_codealchemy_n8n_2025'' SecurityManager_init))) = Inr ()"
proof -
  let ?k = "''sk_codealchemy_n8n_2025''"
  let ?a = "5404319552844595 / 18014398509481984 :: real"
  let ?sm = "snd (check_all (replicate 100 ?a) ?k SecurityManager_init)"
  have w0: "window_of SecurityManager_init ?k = []"
    by (simp add: SecurityManager_init_def window_of_def)
  have near: "\<forall>t\<in>set ([] @ replicate 100 ?a). \<forall>u\<in>set ([] @ replicate 100 ?a).
                round_double (t - u) < real_of_int (rate_limit_window SecurityManager_init)"
    by (simp add: SecurityManager_init_def)
  have run: "fst (check_all (replicate 100 ?a) ?k SecurityManager_init) =
               replicate (length (replicate 100 ?a)) (Inr ()) \<and>
             window_of ?sm ?k = [] @ replicate 100 ?a \<and>
             rate_limit_window ?sm = rate_limit_window SecurityManager_init \<and>
             rate_limit_requests ?sm = rate_limit_requests SecurityManager_init"
    by (intro check_all_accepts [OF w0 near]) (simp add: SecurityManager_init_def)
  have cfg: "rate_limit_window ?sm = 60" "rate_limit_requests ?sm = 100"
    "window_of ?sm ?k = replicate 100 ?a"
    using run by (simp_all add: SecurityManager_init_def)
  show ?thesis
    by (simp only: check_rate_limit_result cfg filter_replicate round_double_60_3_minus_0_3)
       simp
qed

lemma validate_api_key_Inr:
  "validate_api_key x sm = Inr n \<Longrightarrow> (n, x) \<in> set (api_keys sm)"
  by (auto simp: validate_api_key_def find_Some_iff in_set_conv_nth
       split: if_splits option.splits)

lemma validate_api_key_reject:
  "x \<notin> set (map snd (api_keys sm)) \<Longrightarrow>
   validate_api_key x sm = Inl (HTTPException 401 ''Invalid API key'')"
  by (simp add: validate_api_key_def)

lemma update_entry:
  assumes "distinct (map fst al)" and "(n, v') \<in> set (AList.update k v al)"
  shows "(n = k \<and> v' = v) \<or> (n \<noteq> k \<and> (n, v') \<in> set al)"
proof -
  have "distinct (map fst (AList.update k v al))"
    using assms(1) by (simp add: distinct_update)
  then have "map_of (AList.update k v al) n = Some v'"
    using assms(2) by simp
  then have "((map_of al)(k \<mapsto> v)) n = Some v'"
    by (simp add: update_conv')
  then show ?thesis
    by (auto split: if_splits dest: map_of_SomeD)
qed

text \<open>
  Claim C9, amended.  For a configured key name, \<open>rotate_api_key\<close> returns true and
  stores the SHA-256 hex digest of the new key under that name; afterwards a credential that
  \<open>validate_api_key\<close> accepts for that key name is this digest, and the new key itself
  is refused with 401 whenever it differs from its digest and is not the stored
  credential of another key name.
\<close>

theorem rotate_api_key_stores_digest:
  assumes "distinct (map fst (api_keys sm))"
    and "key_name \<in> set (map fst (api_keys sm))"
  shows "fst (rotate_api_key key_name new_key sm) = True
    \<and> map_of (api_keys (snd (rotate_api_key key_name new_key sm))) key_name =
        Some (sha256_hexdigest new_key)
    \<and> (\<forall>x. validate_api_key x (snd (rotate_api_key key_name new_key sm)) = Inr key_name
          \<longrightarrow> x = sha256_hexdigest new_key)
    \<and> (new_key \<noteq> sha256_hexdigest new_key \<and>
       (\<forall>(n, k)\<in>set (api_keys sm). n \<noteq> key_name \<longrightarrow> k \<noteq> new_key)
       \<longrightarrow> validate_api_key new_key (snd (rotate_api_key key_name new_key sm)) =
             Inl (HTTPException 401 ''Invalid API key''))"
proof -
  let ?d = "sha256_hexdigest new_key"
  let ?sm' = "snd (rotate_api_key key_name new_key sm)"
  have keys': "api_keys ?sm' = AList.update key_name ?d (api_keys sm)"
    using assms(2) by (simp add: rotate_api_key_def)
  have ok: "fst (rotate_api_key key_name new_key sm) = True"
    using assms(2) by (simp add: rotate_api_key_def)
  have stored: "map_of (api_keys ?sm') key_name = Some ?d"
    by (simp add: keys' update_conv')
  have only: "x = ?d" if "validate_api_key x ?sm' = Inr key_name" for x
  proof -
    have "(key_name, x) \<in> set (AList.update key_name ?d (api_keys sm))"
      using validate_api_key_Inr [OF that] by (simp add: keys')
    then show ?thesis
      using update_entry [OF assms(1)] by blast
  qed
  have rej: "validate_api_key new_key ?sm' = Inl (HTTPException 401 ''Invalid API key'')"
    if "new_key \<noteq> ?d \<and> (\<forall>(n, k)\<in>set (api_keys sm). n \<noteq> key_name \<longrightarrow> k \<noteq> new_key)"
  proof (rule validate_api_key_reject, rule notI)
    assume "new_key \<in> set (map snd (api_keys ?sm'))"
    then obtain n where "(n, new_key) \<in> set (AList.update key_name ?d (api_keys sm))"
      by (auto simp: keys')
    then have "(n = key_name \<and> new_key = ?d) \<or> (n \<noteq> key_name \<and> (n, new_key) \<in> set (api_keys sm))"
      by (rule update_entry [OF assms(1)])
    then show False using that by auto
  qed
  show ?thesis
    using ok stored only rej by blast
qed

text \<open>Rotating \<open>n8n_main\<close> of the initial configuration to a fresh key.\<close>

theorem rotate_api_key_stores_digest_witness:
  "fst (rotate_api_key ''n8n_main'' ''rotated_secret'' SecurityManager_init) = True
   \<and> map_of (api_keys (snd (rotate_api_key ''n8n_main'' ''rotated_secret'' SecurityManager_init)))
        ''n8n_main'' = Some (sha256_hexdigest ''rotated_secret'')
   \<and> validate_api_key ''rotated_secret''
        (snd (rotate_api_key ''n8n_main'' ''rotated_secret'' SecurityManager_init)) =
      Inl (HTTPException 401 ''Invalid API key'')"
proof -
  have "length ''rotated_secret'' \<noteq> length (sha256_hexdigest ''rotated_secret'')"
    by (simp add: length_sha256_hexdigest)
  then have ne: "''rotated_secret'' \<noteq> sha256_hexdigest ''rotated_secret''"
    by metis
  have d: "distinct (map fst (api_keys SecurityManager_init))"
    and m: "''n8n_main'' \<in> set (map fst (api_keys SecurityManager_init))"
    and o: "\<forall>(n, k)\<in>set (api_keys SecurityManager_init).
              n \<noteq> ''n8n_main'' \<longrightarrow> k \<noteq> ''rotated_secret''"
    by (simp_all add: SecurityManager_init_def)
  show ?thesis
    using rotate_api_key_stores_digest [OF d m, of "''rotated_secret''"] ne o by blast
qed

text \<open>
  Claim C9 as stated fails when the new key is the credential stored under another key
  name: after rotating \<open>n8n_main\<close> to the key of \<open>n8n_monitoring\<close>, the new key differs
  from its digest and yet validates (as \<open>n8n_monitoring\<close>).
\<close>

theorem rotate_api_key_other_key_counterexample:
  "fst (rotate_api_key ''n8n_main'' ''sk_codealchemy_monitor_2025'' SecurityManager_init) = True
   \<and> ''sk_codealchemy_monitor_2025'' \<noteq> sha256_hexdigest ''sk_codealchemy_monitor_2025''
   \<and> validate_api_key ''sk_codealchemy_monitor_2025''
        (snd (rotate_api_key ''n8n_main'' ''sk_codealchemy_monitor_2025'' SecurityManager_init)) =
      Inr ''n8n_monitoring''"
proof -
  have "length ''sk_codealchemy_monitor_2025'' \<noteq>
        length (sha256_hexdigest ''sk_codealchemy_monitor_2025'')"
    by (simp add: length_sha256_hexdigest)
  then have ne: "''sk_codealchemy_monitor_2025'' \<noteq> sha256_hexdigest ''sk_codealchemy_monitor_2025''"
    by metis
  then have ne': "sha256_hexdigest ''sk_codealchemy_monitor_2025'' \<noteq> ''sk_codealchemy_monitor_2025''"
    by (rule not_sym)
  show ?thesis
    using ne ne'
    by (simp add: rotate_api_key_def validate_api_key_def SecurityManager_init_def)
qed

section \<open>Verification: AgentManager\<close>


lemma map_of_put_agent:
  "map_of (agents (put_agent name a am)) n = (if n = name then Some a else map_of (agents am) n)"
  by (simp add: put_agent_def update_conv')

lemma history_put_agent [simp]:
  "agent_status_history (put_agent name a am) = agent_status_history am"
  "max_history (put_agent name a am) = max_history am"
  by (simp_all add: put_agent_def)

lemma tasks_total_update_status [simp]:
  "tasks_total (update_status st now a) = tasks_total a"
  by (simp add: tasks_total_def update_status_def)

text \<open>The ways a dispatch can go.\<close>

lemma execute_agent_not_found:
  "map_of (agents am) name = None \<Longrightarrow>
   snd (execute_agent name parameters clk am) = ([], am)"
  by (simp add: execute_agent_def)

lemma execute_agent_rejected:
  "map_of (agents am) name = Some a \<Longrightarrow> \<not> enabled a \<or> \<not> validate_parameters a parameters \<Longrightarrow>
   snd (execute_agent name parameters clk am) = ([], am)"
  by (auto simp: execute_agent_def)

lemma execute_agent_except_effect:
  "fst (snd (execute_agent_except e name clk am)) = [] \<and>
   agent_status_history (snd (snd (execute_agent_except e name clk am))) = agent_status_history am \<and>
   max_history (snd (snd (execute_agent_except e name clk am))) = max_history am \<and>
   map_of (agents (snd (snd (execute_agent_except e name clk am)))) n =
     (if n = name then map_option (update_status FAILED (now_outcome clk)) (map_of (agents am) name)
      else map_of (agents am) n)"
  by (simp add: execute_agent_except_def Let_def map_of_put_agent split: option.splits)

lemma tasks_total_started [simp]: "tasks_total (started clk a st') = tasks_total a"
  by (simp add: started_def tasks_total_def update_status_def)

lemma execute_agent_raised:
  assumes "map_of (agents am) name = Some a" "enabled a" "validate_parameters a parameters"
    and "execute a parameters (own_state a) = (outcome, st')"
    and "outcome = Raises e \<or>
         (\<exists>v. outcome = Returns v \<and> (\<forall>d. v \<noteq> PDict d) \<and>
              e = AttributeError ([CHR 0x27] @ type_name v @ [CHR 0x27] @
                    '' object has no attribute '' @ [CHR 0x27] @ ''get'' @ [CHR 0x27]))"
  shows "execute_agent name parameters clk am =
           execute_agent_except e name clk (put_agent name (started clk a st') am)"
  using assms
  by (auto simp: execute_agent_def started_def update_status_def Let_def
           split: exec_outcome.splits pyval.splits)

lemma execute_agent_returned:
  assumes "map_of (agents am) name = Some a" "enabled a" "validate_parameters a parameters"
    and "execute a parameters (own_state a) = (Returns (PDict result), st')"
  shows "snd (execute_agent name parameters clk am) =
           add_to_history name result (execution_time clk) (now_history clk)
             (put_agent name (finished clk result a st') am)"
  using assms
  by (simp add: execute_agent_def started_def finished_def update_status_def Let_def
           split: prod.splits)






lemma entries_of_append [simp]: "entries_of n (xs @ ys) = entries_of n xs @ entries_of n ys"
  by (simp add: entries_of_def)







lemma execute_agent_history_cases:
  "(fst (snd (execute_agent name parameters clk am)) = [] \<and>
    agent_status_history (snd (snd (execute_agent name parameters clk am))) = agent_status_history am \<and>
    max_history (snd (snd (execute_agent name parameters clk am))) = max_history am)
   \<or> (\<exists>result am2. snd (execute_agent name parameters clk am) =
          add_to_history name result (execution_time clk) (now_history clk) am2 \<and>
        agent_status_history am2 = agent_status_history am \<and> max_history am2 = max_history am)"
proof (cases "map_of (agents am) name")
  case None
  then show ?thesis by (simp add: execute_agent_not_found)
next
  case (Some a)
  show ?thesis
  proof (cases "\<not> enabled a \<or> \<not> validate_parameters a parameters")
    case True
    then show ?thesis using execute_agent_rejected [OF Some True] by simp
  next
    case False
    obtain outcome st' where ex: "execute a parameters (own_state a) = (outcome, st')"
      by (cases "execute a parameters (own_state a)")
    consider (ok) result where "outcome = Returns (PDict result)"
      | (bad) e where "outcome = Raises e \<or>
         (\<exists>v. outcome = Returns v \<and> (\<forall>d. v \<noteq> PDict d) \<and>
              e = AttributeError ([CHR 0x27] @ type_name v @ [CHR 0x27] @
                    '' object has no attribute '' @ [CHR 0x27] @ ''get'' @ [CHR 0x27]))"
    proof (cases outcome)
      case (Raises e)
      then show ?thesis using bad by blast
    next
      case (Returns v)
      then show ?thesis using ok bad by (cases v) auto
    qed
    then show ?thesis
    proof cases
      case ok
      have "snd (execute_agent name parameters clk am) =
              add_to_history name result (execution_time clk) (now_history clk)
                (put_agent name (finished clk result a st') am)"
        using execute_agent_returned [OF Some _ _ ex [unfolded ok]] False by simp
      then show ?thesis
        by (intro disjI2 exI [where x = result]
              exI [where x = "put_agent name (finished clk result a st') am"]) simp
    next
      case bad
      have "execute_agent name parameters clk am =
              execute_agent_except e name clk (put_agent name (started clk a st') am)"
        using execute_agent_raised [OF Some _ _ ex bad] False by simp
      then show ?thesis
        using execute_agent_except_effect [of e name clk "put_agent name (started clk a st') am"]
        by simp
    qed
  qed
qed

lemma within_cap_add:
  assumes "within_cap ev am2"
  shows "within_cap (ev @ fst (add_to_history name result t now am2))
           (snd (add_to_history name result t now am2))"
  using assms by (auto simp: within_cap_def add_to_history_def Let_def)

lemma max_history_add [simp]:
  "max_history (snd (add_to_history name result t now am2)) = max_history am2"
  by (simp add: add_to_history_def Let_def)

lemma within_cap_cong:
  "agent_status_history am2 = agent_status_history am \<Longrightarrow> max_history am2 = max_history am \<Longrightarrow>
   within_cap ev am2 = within_cap ev am"
  by (simp add: within_cap_def)

lemma within_cap_step:
  assumes "within_cap ev am"
  shows "within_cap (ev @ fst (manager_step op am)) (snd (manager_step op am)) \<and>
         max_history (snd (manager_step op am)) = max_history am"
proof (cases op)
  case (Execute name parameters clk)
  from execute_agent_history_cases [of name parameters clk am] show ?thesis
  proof (elim disjE exE conjE)
    assume "fst (snd (execute_agent name parameters clk am)) = []"
      "agent_status_history (snd (snd (execute_agent name parameters clk am))) = agent_status_history am"
      "max_history (snd (snd (execute_agent name parameters clk am))) = max_history am"
    then show ?thesis using assms Execute by (simp add: within_cap_def)
  next
    fix result am2
    assume eq: "snd (execute_agent name parameters clk am) =
                  add_to_history name result (execution_time clk) (now_history clk) am2"
      and h: "agent_status_history am2 = agent_status_history am"
      and m: "max_history am2 = max_history am"
    have "within_cap ev am2" using assms within_cap_cong [OF h m] by simp
    from within_cap_add [OF this] show ?thesis
      using Execute eq m by simp
  qed
next
  case (Enable name now)
  then show ?thesis using assms
    by (auto simp: within_cap_def enable_agent_def Let_def split: option.splits)
next
  case (Disable name now)
  then show ?thesis using assms
    by (auto simp: within_cap_def disable_agent_def Let_def split: option.splits)
next
  case (AddTrigger name tname config now)
  then show ?thesis using assms
    by (auto simp: within_cap_def add_workflow_trigger_def split: option.splits)
qed

lemma within_cap_run:
  "within_cap ev am \<Longrightarrow>
   within_cap (fst (manager_run ops (ev, am))) (snd (manager_run ops (ev, am))) \<and>
   max_history (snd (manager_run ops (ev, am))) = max_history am"
proof (induction ops arbitrary: ev am)
  case Nil
  then show ?case by simp
next
  case (Cons op ops)
  have st: "within_cap (ev @ fst (manager_step op am)) (snd (manager_step op am))"
    "max_history (snd (manager_step op am)) = max_history am"
    using within_cap_step [OF Cons.prems] by simp_all
  from Cons.IH [OF st(1)] st(2) show ?case
    by (simp add: split_beta)
qed

lemma within_cap_init: "within_cap [] (AgentManager_init st exe t1 t2)"
  by (simp add: within_cap_def AgentManager_init_def)


lemmas fixture_defs =
  AgentManager_init_def BaseAgent_init_def agent_add_workflow_trigger_def spy_execute_def
  raising_execute_def clock0_def


text \<open>
  Claim C7.  A dispatch to a registered agent whose \<open>enabled\<close> flag is false returns
  the failure result "Agent ... is disabled", evicts nothing and leaves the whole manager
  unchanged, the agent's own state included, whatever its \<open>execute\<close> would do:
  \<open>execute\<close> is not invoked.
\<close>

theorem execute_agent_disabled:
  "map_of (agents am) name = Some a \<Longrightarrow> \<not> enabled a \<Longrightarrow>
   execute_agent name parameters clk am =
     ([(''success'', PBool False), (''error'', PStr (''Agent '' @ name @ '' is disabled''))], [], am)"
  by (simp add: execute_agent_def)

text \<open>The spy agent, disabled and then dispatched to: its call counter is still 0.\<close>

theorem execute_agent_disabled_witness:
  "execute_agent ''file_organization'' [(''operation'', PStr ''process_documents'')] clock0
     (snd (disable_agent ''file_organization'' noon (AgentManager_init (0::nat) spy_execute noon noon)))
   = ([(''success'', PBool False), (''error'', PStr ''Agent file_organization is disabled'')], [],
      snd (disable_agent ''file_organization'' noon (AgentManager_init (0::nat) spy_execute noon noon)))
   \<and> map_option own_state
        (map_of (agents (snd (snd (execute_agent ''file_organization''
            [(''operation'', PStr ''process_documents'')] clock0
            (snd (disable_agent ''file_organization'' noon
                    (AgentManager_init (0::nat) spy_execute noon noon)))))))
           ''file_organization'') = Some 0"
proof -
  let ?am = "snd (disable_agent ''file_organization'' noon (AgentManager_init (0::nat) spy_execute noon noon))"
  obtain a where a: "map_of (agents ?am) ''file_organization'' = Some a"
    and d: "\<not> enabled a" and o: "own_state a = 0"
    by (simp add: fixture_defs disable_agent_def update_status_def Let_def put_agent_def)
  show ?thesis
    using execute_agent_disabled [OF a d, of "[(''operation'', PStr ''process_documents'')]" clock0]
      a o by simp
qed

text \<open>
  Claim C1 on an agent whose \<open>execute\<close> raises: the dispatch returns the failure result
  with the exception's message and sets the status to \<open>failed\<close>, and
  \<open>tasks_completed\<close> stays 0; but \<open>tasks_failed\<close> stays 0 as well, and no history
  entry is written, although \<open>execute\<close> ran once.
\<close>

theorem execute_agent_raise_not_counted:
  "fst (execute_agent ''file_organization'' [(''operation'', PStr ''add_test_files'')] clock0
          (AgentManager_init (0::nat) raising_execute noon noon)) =
     [(''success'', PBool False), (''error'', PStr ''disk full''),
      (''agent_name'', PStr ''file_organization''), (''timestamp'', PStr (isoformat noon))]
   \<and> map_option (\<lambda>a. (tasks_completed (processing_stats a), tasks_failed (processing_stats a),
                        status a, own_state a))
        (map_of (agents (snd (snd (execute_agent ''file_organization''
            [(''operation'', PStr ''add_test_files'')] clock0
            (AgentManager_init (0::nat) raising_execute noon noon))))) ''file_organization'')
       = Some (0, 0, FAILED, 1)
   \<and> agent_status_history (snd (snd (execute_agent ''file_organization''
            [(''operation'', PStr ''add_test_files'')] clock0
            (AgentManager_init (0::nat) raising_execute noon noon)))) = []"
  by (simp add: fixture_defs execute_agent_def execute_agent_except_def update_status_def
        Let_def put_agent_def)




section \<open>Verification: WebhookHandler and the history buffers\<close>

lemma fifo_step:
  "length h \<le> m \<Longrightarrow>
   (if m < length (h @ [x]) then tl (h @ [x]) else h @ [x]) =
   drop (length (h @ [x]) - m) (h @ [x])"
  by (cases h) (auto simp: drop_Cons')

lemma drop_cap_append:
  "drop (length (drop (length xs - m) xs @ ys) - m) (drop (length xs - m) xs @ ys) =
   drop (length (xs @ ys) - m) (xs @ ys)"
proof (cases "length xs \<le> m")
  case True
  then show ?thesis by simp
next
  case False
  then have "length (drop (length xs - m) xs) = m" by simp
  then have "drop (length (drop (length xs - m) xs @ ys) - m) (drop (length xs - m) xs @ ys) =
             drop (length ys) (drop (length xs - m) xs @ ys)"
    by simp
  also have "\<dots> = drop (length ys) (drop (length xs - m) (xs @ ys))"
    using False by simp
  also have "\<dots> = drop (length (xs @ ys) - m) (xs @ ys)"
    using False by (simp add: add.commute)
  finally show ?thesis .
qed

lemma fifo_push:
  assumes "h = drop (length pre - m) pre"
  shows "(if m < length (h @ [x]) then tl (h @ [x]) else h @ [x]) =
         drop (length (pre @ [x]) - m) (pre @ [x])"
proof -
  have "length h \<le> m" using assms by simp
  then have "(if m < length (h @ [x]) then tl (h @ [x]) else h @ [x]) =
             drop (length (h @ [x]) - m) (h @ [x])"
    by (rule fifo_step)
  also have "\<dots> = drop (length (pre @ [x]) - m) (pre @ [x])"
    unfolding assms by (rule drop_cap_append)
  finally show ?thesis .
qed

lemma process_webhook_effect:
  "webhook_history (snd (process_webhook ref t1 t2 wh)) =
     (if webhook_max_history wh < length (webhook_history wh @ [ref])
      then tl (webhook_history wh @ [ref]) else webhook_history wh @ [ref]) \<and>
   processing_queue (snd (process_webhook ref t1 t2 wh)) = processing_queue wh @ [ref] \<and>
   webhook_max_history (snd (process_webhook ref t1 t2 wh)) = webhook_max_history wh"
  by (simp add: process_webhook_def Let_def)

lemma submit_all_fifo:
  "webhook_history wh = drop (length pre - webhook_max_history wh) pre \<Longrightarrow>
   webhook_history (submit_all subs wh) =
     drop (length (pre @ map fst subs) - webhook_max_history wh) (pre @ map fst subs) \<and>
   webhook_max_history (submit_all subs wh) = webhook_max_history wh"
proof (induction subs arbitrary: wh pre)
  case Nil
  then show ?case by simp
next
  case (Cons s subs)
  obtain ref t1 t2 where s: "s = (ref, t1, t2)" by (cases s)
  let ?wh1 = "snd (process_webhook ref t1 t2 wh)"
  have m: "webhook_max_history ?wh1 = webhook_max_history wh"
    by (simp add: process_webhook_effect)
  have "webhook_history ?wh1 =
          drop (length (pre @ [ref]) - webhook_max_history wh) (pre @ [ref])"
    using fifo_push [OF Cons.prems] by (simp add: process_webhook_effect)
  then have "webhook_history ?wh1 =
          drop (length (pre @ [ref]) - webhook_max_history ?wh1) (pre @ [ref])"
    by (simp add: m)
  from Cons.IH [OF this] show ?case
    by (simp add: s m)
qed

lemma add_to_history_effect2:
  "agent_status_history (snd (add_to_history name result t now am)) =
     (if max_history am < length (agent_status_history am @ [history_entry name result t now])
      then tl (agent_status_history am @ [history_entry name result t now])
      else agent_status_history am @ [history_entry name result t now]) \<and>
   max_history (snd (add_to_history name result t now am)) = max_history am"
  by (simp add: add_to_history_def Let_def)

lemma record_all_fifo:
  "agent_status_history am = drop (length pre - max_history am) pre \<Longrightarrow>
   agent_status_history (record_all es am) =
     drop (length (pre @ map entry_of es) - max_history am) (pre @ map entry_of es) \<and>
   max_history (record_all es am) = max_history am"
proof (induction es arbitrary: am pre)
  case Nil
  then show ?case by simp
next
  case (Cons e es)
  obtain name result t now where e: "e = (name, result, t, now)" by (cases e)
  let ?am1 = "snd (add_to_history name result t now am)"
  let ?x = "history_entry name result t now"
  have m: "max_history ?am1 = max_history am"
    by (simp add: add_to_history_effect2)
  have "agent_status_history ?am1 = drop (length (pre @ [?x]) - max_history am) (pre @ [?x])"
    using fifo_push [OF Cons.prems] by (simp add: add_to_history_effect2)
  then have "agent_status_history ?am1 =
               drop (length (pre @ [?x]) - max_history ?am1) (pre @ [?x])"
    by (simp add: m)
  from Cons.IH [OF this] show ?case
    by (simp add: e m entry_of_def)
qed

lemma tail_without_head:
  assumes "length xs = Suc m" and "hd xs \<notin> set (tl xs)"
  shows "drop (length xs - m) xs = tl xs \<and> hd xs \<notin> set (drop (length xs - m) xs)"
  using assms by (cases xs) auto


lemma process_one_frame:
  "processing_queue (process_one ref now wh) = processing_queue wh \<and>
   webhook_history (process_one ref now wh) = webhook_history wh \<and>
   webhook_max_history (process_one ref now wh) = webhook_max_history wh"
  by (simp add: process_one_def Let_def split: prod.splits option.splits)





lemma consume_Cons:
  "processing_queue wh = ref # q \<Longrightarrow>
   consume now wh = (Some ref, process_one ref now (wh\<lparr>processing_queue := q\<rparr>))"
  by (simp add: consume_def)

lemma consume_Nil: "processing_queue wh = [] \<Longrightarrow> consume now wh = (None, wh)"
  by (simp add: consume_def)

lemma consume_frame:
  "webhook_history (snd (consume now wh)) = webhook_history wh \<and>
   webhook_max_history (snd (consume now wh)) = webhook_max_history wh \<and>
   processing_queue (snd (consume now wh)) = tl (processing_queue wh)"
  by (cases "processing_queue wh") (simp_all add: consume_Nil consume_Cons process_one_frame)

lemma is_processed_queue_update [simp]:
  "is_processed (wh\<lparr>processing_queue := q\<rparr>) r = is_processed wh r"
  by (simp add: is_processed_def)



lemma same_payload_refl [simp]: "same_payload d d"
  by (simp add: same_payload_def)









lemma webhook_run_bounded:
  "length (webhook_history wh) \<le> webhook_max_history wh \<Longrightarrow>
   length (webhook_history (snd (webhook_run evs (taken, wh)))) \<le> webhook_max_history wh \<and>
   webhook_max_history (snd (webhook_run evs (taken, wh))) = webhook_max_history wh"
proof (induction evs arbitrary: taken wh)
  case Nil
  then show ?case by simp
next
  case (Cons ev evs)
  have step: "length (webhook_history (snd (webhook_step ev wh))) \<le> webhook_max_history wh \<and>
              webhook_max_history (snd (webhook_step ev wh)) = webhook_max_history wh"
  proof (cases ev)
    case (Submit ref t1 t2)
    then show ?thesis using Cons.prems by (auto simp: process_webhook_effect)
  next
    case (Consume now)
    have "snd (webhook_step (Consume now) wh) = snd (consume now wh)"
      by (simp split: prod.splits option.splits)
    then show ?thesis using Consume Cons.prems by (simp add: consume_frame)
  qed
  then have "length (webhook_history (snd (webhook_step ev wh)))
               \<le> webhook_max_history (snd (webhook_step ev wh))"
    by simp
  from Cons.IH [OF this] step show ?case
    by (simp add: split_beta)
qed

text \<open>
  Claim C5.  From process start, after any list of webhook submissions the webhook
  history holds at most 1000 references, namely the last 1000 submitted, in order; after
  any list of \<open>_add_to_history\<close> calls the execution history holds at most 1000
  entries, the last 1000 appended, in order; after any run of manager operations the
  execution history holds at most 1000 entries, and after any interleaving of submissions
  and dispatcher iterations the webhook history holds at most 1000 references.  After 1001 submissions the buffer is
  the list of the last 1000, and the first one, when it differs from all later ones, is
  no longer in it.
\<close>

theorem history_buffers_bounded_fifo:
  "length (webhook_history (submit_all subs (WebhookHandler_init url objs))) \<le> 1000
   \<and> webhook_history (submit_all subs (WebhookHandler_init url objs)) =
       drop (length subs - 1000) (map fst subs)
   \<and> (length subs = 1001 \<and> fst (hd subs) \<notin> set (map fst (tl subs)) \<longrightarrow>
       webhook_history (submit_all subs (WebhookHandler_init url objs)) = map fst (tl subs) \<and>
       fst (hd subs) \<notin> set (webhook_history (submit_all subs (WebhookHandler_init url objs))))
   \<and> length (agent_status_history (record_all es (AgentManager_init st exe t1 t2))) \<le> 1000
   \<and> agent_status_history (record_all es (AgentManager_init st exe t1 t2)) =
       drop (length es - 1000) (map entry_of es)
   \<and> (length es = 1001 \<and> entry_of (hd es) \<notin> set (map entry_of (tl es)) \<longrightarrow>
       agent_status_history (record_all es (AgentManager_init st exe t1 t2)) =
         map entry_of (tl es) \<and>
       entry_of (hd es) \<notin> set (agent_status_history (record_all es (AgentManager_init st exe t1 t2))))
   \<and> length (agent_status_history (snd (manager_run ops ([], AgentManager_init st exe t1 t2))))
       \<le> 1000
   \<and> length (webhook_history (snd (webhook_run evs ([], WebhookHandler_init url objs)))) \<le> 1000"
proof -
  let ?wh = "WebhookHandler_init url objs"
  let ?am = "AgentManager_init st exe t1 t2"
  have w0: "webhook_history ?wh = drop (length ([]::nat list) - webhook_max_history ?wh) []"
    by (simp add: WebhookHandler_init_def)
  have wm: "webhook_max_history ?wh = 1000" by (simp add: WebhookHandler_init_def)
  have w: "webhook_history (submit_all subs ?wh) = drop (length subs - 1000) (map fst subs)"
    using submit_all_fifo [OF w0, of subs] by (simp add: wm)
  have a0: "agent_status_history ?am = drop (length ([]::pydict list) - max_history ?am) []"
    by (simp add: AgentManager_init_def)
  have am: "max_history ?am = 1000" by (simp add: AgentManager_init_def)
  have a: "agent_status_history (record_all es ?am) = drop (length es - 1000) (map entry_of es)"
    using record_all_fifo [OF a0, of es] by (simp add: am)
  have w1: "webhook_history (submit_all subs ?wh) = map fst (tl subs) \<and>
            fst (hd subs) \<notin> set (webhook_history (submit_all subs ?wh))"
    if "length subs = 1001 \<and> fst (hd subs) \<notin> set (map fst (tl subs))"
  proof -
    have ne: "subs \<noteq> []" using that by auto
    have "length (map fst subs) = Suc 1000" using that by simp
    moreover have "hd (map fst subs) \<notin> set (tl (map fst subs))"
      using that ne by (simp add: hd_map map_tl)
    ultimately have "drop (length (map fst subs) - 1000) (map fst subs) = tl (map fst subs) \<and>
        hd (map fst subs) \<notin> set (drop (length (map fst subs) - 1000) (map fst subs))"
      by (rule tail_without_head)
    moreover have "hd (map fst subs) = fst (hd subs)" using ne by (simp add: hd_map)
    moreover have "tl (map fst subs) = map fst (tl subs)" by (simp add: map_tl)
    moreover have "length (map fst subs) = length subs" by simp
    ultimately show ?thesis unfolding w by metis
  qed
  have a1: "agent_status_history (record_all es ?am) = map entry_of (tl es) \<and>
            entry_of (hd es) \<notin> set (agent_status_history (record_all es ?am))"
    if "length es = 1001 \<and> entry_of (hd es) \<notin> set (map entry_of (tl es))"
  proof -
    have ne: "es \<noteq> []" using that by auto
    have "length (map entry_of es) = Suc 1000" using that by simp
    moreover have "hd (map entry_of es) \<notin> set (tl (map entry_of es))"
      using that ne by (simp add: hd_map map_tl)
    ultimately have "drop (length (map entry_of es) - 1000) (map entry_of es) =
                       tl (map entry_of es) \<and>
        hd (map entry_of es) \<notin> set (drop (length (map entry_of es) - 1000) (map entry_of es))"
      by (rule tail_without_head)
    moreover have "hd (map entry_of es) = entry_of (hd es)" using ne by (simp add: hd_map)
    moreover have "tl (map entry_of es) = map entry_of (tl es)" by (simp add: map_tl)
    moreover have "length (map entry_of es) = length es" by simp
    ultimately show ?thesis unfolding a by metis
  qed
  have r: "length (agent_status_history (snd (manager_run ops ([], ?am)))) \<le> 1000"
    using within_cap_run [OF within_cap_init, of ops st exe t1 t2]
    by (simp add: within_cap_def am)
  have wl: "length (webhook_history (submit_all subs ?wh)) \<le> 1000"
    by (cases "length subs \<le> 1000") (simp_all add: w)
  have al: "length (agent_status_history (record_all es ?am)) \<le> 1000"
    by (cases "length es \<le> 1000") (simp_all add: a)
  have i0: "length (webhook_history ?wh) \<le> webhook_max_history ?wh"
    by (simp add: WebhookHandler_init_def)
  have e: "length (webhook_history (snd (webhook_run evs ([], ?wh)))) \<le> 1000"
    using webhook_run_bounded [OF i0, of evs "[]"] by (simp add: wm)
  from wl w w1 al a a1 r e show ?thesis
    by (intro conjI impI) blast+
qed

text \<open>1001 submissions to each buffer: records 1 to 1000 remain, record 0 is gone.\<close>

theorem history_buffers_bounded_fifo_witness:
  "webhook_history (submit_all submissions_1001 handler0) = map Suc [0..<1000]
   \<and> 0 \<notin> set (webhook_history (submit_all submissions_1001 handler0))
   \<and> agent_status_history (record_all records_1001 (AgentManager_init (0::nat) spy_execute noon noon))
       = map (\<lambda>i. history_entry ''file_organization'' [] (real (Suc i)) noon) [0..<1000]
   \<and> history_entry ''file_organization'' [] 0 noon \<notin>
       set (agent_status_history
              (record_all records_1001 (AgentManager_init (0::nat) spy_execute noon noon)))"
proof -
  have l: "length submissions_1001 = 1001 \<and>
           fst (hd submissions_1001) \<notin> set (map fst (tl submissions_1001))"
    by (auto simp: submissions_1001_def)
  have k: "length records_1001 = 1001 \<and>
           entry_of (hd records_1001) \<notin> set (map entry_of (tl records_1001))"
    by (auto simp: records_1001_def entry_of_def history_entry_def)
  have t1: "map fst (tl submissions_1001) = map Suc [0..<1000]"
    "fst (hd submissions_1001) = 0"
    by (simp_all add: submissions_1001_def o_def)
  have t2: "map entry_of (tl records_1001) =
              map (\<lambda>i. history_entry ''file_organization'' [] (real (Suc i)) noon) [0..<1000]"
    "entry_of (hd records_1001) = history_entry ''file_organization'' [] 0 noon"
    by (simp_all add: records_1001_def entry_of_def o_def)
  note inst = history_buffers_bounded_fifo
            [where subs = submissions_1001 and url = "''http://localhost:5678''"
               and objs = sample_objects and es = records_1001 and st = "0::nat"
               and exe = spy_execute and ?t1.0 = noon and ?t2.0 = noon and ops = "[]"
               and evs = "[]"]
  from inst l have w: "webhook_history (submit_all submissions_1001 handler0) =
                        map fst (tl submissions_1001) \<and>
      fst (hd submissions_1001) \<notin> set (webhook_history (submit_all submissions_1001 handler0))"
    unfolding handler0_def by blast
  from inst k have a: "agent_status_history
        (record_all records_1001 (AgentManager_init (0::nat) spy_execute noon noon)) =
          map entry_of (tl records_1001) \<and>
      entry_of (hd records_1001) \<notin> set (agent_status_history
        (record_all records_1001 (AgentManager_init (0::nat) spy_execute noon noon)))"
    by blast
  from w a show ?thesis
    unfolding t1 t2 by blast
qed










text \<open>The id determines the clock reading: ids collide only when the readings coincide.\<close>

lemma length_dec [simp]: "length (dec w n) = w"
  by (induction w arbitrary: n) simp_all

lemma char_of_digit_inj:
  "a < 10 \<Longrightarrow> b < 10 \<Longrightarrow> (char_of (48 + a :: nat) :: char) = char_of (48 + b) \<Longrightarrow> a = b"
proof -
  assume a: "a < 10" and b: "b < 10" and e: "(char_of (48 + a) :: char) = char_of (48 + b)"
  have "(of_char (char_of (48 + a) :: char) :: nat) = of_char (char_of (48 + b) :: char)"
    using e by simp
  then have "(48 + a) mod 256 = (48 + b) mod 256"
    by (simp only: of_char_of)
  then show "a = b" using a b by simp
qed

lemma dec_inj:
  "n < 10 ^ w \<Longrightarrow> m < 10 ^ w \<Longrightarrow> dec w n = dec w m \<Longrightarrow> n = m"
proof (induction w arbitrary: n m)
  case 0
  then show ?case by simp
next
  case (Suc w)
  from Suc.prems(3) have d: "dec w (n div 10) = dec w (m div 10)"
    and c: "(char_of (48 + n mod 10) :: char) = char_of (48 + m mod 10)"
    by simp_all
  have "n div 10 < 10 ^ w" "m div 10 < 10 ^ w"
    using Suc.prems(1,2) by (simp_all add: less_mult_imp_div_less mult.commute)
  then have "n div 10 = m div 10" using d Suc.IH by blast
  moreover have "n mod 10 = m mod 10"
    using c by (intro char_of_digit_inj) simp_all
  ultimately show ?case
    by (metis div_mult_mod_eq)
qed

lemma generate_webhook_id_inj:
  assumes "valid_datetime t" "valid_datetime u"
    and "generate_webhook_id t = generate_webhook_id u"
  shows "t = u"
proof -
  from assms(3) have
    "dec 4 (year t) = dec 4 (year u)" "dec 2 (month t) = dec 2 (month u)"
    "dec 2 (day t) = dec 2 (day u)" "dec 2 (hour t) = dec 2 (hour u)"
    "dec 2 (minute t) = dec 2 (minute u)" "dec 2 (second t) = dec 2 (second u)"
    "dec 6 (microsecond t) = dec 6 (microsecond u)"
    by (simp_all add: generate_webhook_id_def strftime_id_def)
  then have "year t = year u" "month t = month u" "day t = day u" "hour t = hour u"
    "minute t = minute u" "second t = second u" "microsecond t = microsecond u"
    using assms(1,2) unfolding valid_datetime_def
    by (auto intro: dec_inj [where w = 4] dec_inj [where w = 2] dec_inj [where w = 6])
  then show ?thesis by simp
qed

lemma generate_webhook_id_noon:
  "generate_webhook_id noon = ''webhook_20251102_120000_000000''"
  by code_simp

text \<open>
  Claim C8 at two sequential submissions of distinct webhook dicts whose id clock reading
  is the same (2025-11-02 12:00:00.000000): both get the id
  \<open>webhook_20251102_120000_000000\<close>, returned to the submitter and stored in the
  record, and both records are in the history.
\<close>

theorem webhook_id_collision:
  "fst (process_webhook 0 noon noon handler0) =
     [(''success'', PBool True), (''status'', PStr ''accepted''),
      (''webhook_id'', PStr ''webhook_20251102_120000_000000''), (''processing'', PStr ''queued'')]
   \<and> fst (process_webhook 1 noon noon (snd (process_webhook 0 noon noon handler0))) =
     [(''success'', PBool True), (''status'', PStr ''accepted''),
      (''webhook_id'', PStr ''webhook_20251102_120000_000000''), (''processing'', PStr ''queued'')]
   \<and> map_of (heap two_queued 0) ''webhook_id'' = Some (PStr ''webhook_20251102_120000_000000'')
   \<and> map_of (heap two_queued 1) ''webhook_id'' = Some (PStr ''webhook_20251102_120000_000000'')
   \<and> webhook_history two_queued = [0, 1]"
  unfolding generate_webhook_id_noon [symmetric]
  by (simp add: two_queued_def handler0_def WebhookHandler_init_def process_webhook_def
        Let_def sample_objects_def dict_update_def get_or_def)

end
